theory Spec2Isabelle
  imports Complex_Main "HOL-Library.Sublist" "HOL-Library.Char_ord" "HOL-Library.List_Lexorder"
    "HOL-Library.Multiset"
begin

section \<open>Python values and string primitives\<close>

text \<open>
  A table cell as the normalizers see it. The three functions of
  \<^verbatim>\<open>match-rates-script.py\<close> look at their argument in two ways only: the test
  \<^verbatim>\<open>x is None\<close> and the text \<^verbatim>\<open>str(x)\<close>. \<open>PyNone\<close> is Python's \<^verbatim>\<open>None\<close>;
  \<open>PyNaN\<close> is the float \<^verbatim>\<open>nan\<close> that pandas puts in a frame for a missing entry
  (an empty field of a CSV file read by \<^verbatim>\<open>pd.read_csv\<close>); \<open>PyStr s\<close> is a string, or
  any other object whose \<^verbatim>\<open>str()\<close> is \<open>s\<close>.

  A string is a list of characters, one character for each code point, for the code
  points below 256 (ASCII and Latin-1).
\<close>

datatype cell = PyNone | PyNaN | PyStr string

fun py_str :: "cell \<Rightarrow> string" where
  "py_str PyNaN = ''nan''"
| "py_str (PyStr s) = s"
| "py_str PyNone = ''None''"

text \<open>
  \<^verbatim>\<open>s.upper()\<close>. The small letters are the code points 97 to 122 and 224 to 254
  without the division sign 247; each has its capital 32 places before it. The sharp s
  (223) becomes \<^verbatim>\<open>SS\<close>. The micro sign (181) and the y with diaeresis (255), whose
  capitals lie beyond code point 255, are left as they are.
\<close>

definition upper_char :: "char \<Rightarrow> char" where
  "upper_char c =
     (let n = (of_char c :: nat)
      in if (97 \<le> n \<and> n \<le> 122) \<or> (224 \<le> n \<and> n \<le> 254 \<and> n \<noteq> 247) then char_of (n - 32)
         else c)"

definition upper_text :: "char \<Rightarrow> string" where
  "upper_text c = (if (of_char c :: nat) = 223 then ''SS'' else [upper_char c])"

definition py_upper :: "string \<Rightarrow> string" where
  "py_upper s = concat (map upper_text s)"

text \<open>\<^verbatim>\<open>c in s\<close> for a character, \<^verbatim>\<open>pat in s\<close> for a string (a contiguous substring).\<close>

definition char_in :: "char \<Rightarrow> string \<Rightarrow> bool" where
  "char_in c s = (c \<in> set s)"

definition str_in :: "string \<Rightarrow> string \<Rightarrow> bool" where
  "str_in pat s = sublist pat s"

text \<open>\<^verbatim>\<open>s.replace(c, '')\<close> for a one-character pattern \<open>c\<close>.\<close>

definition remove_char :: "char \<Rightarrow> string \<Rightarrow> string" where
  "remove_char c s = filter (\<lambda>d. d \<noteq> c) s"

text \<open>\<^verbatim>\<open>s.strip()\<close>: the code points below 256 for which \<^verbatim>\<open>str.isspace\<close> holds are
  9 to 13, 28 to 31, the blank, 133 (next line) and 160 (no-break space).\<close>

definition is_space :: "char \<Rightarrow> bool" where
  "is_space c =
     (let n = (of_char c :: nat)
      in (9 \<le> n \<and> n \<le> 13) \<or> (28 \<le> n \<and> n \<le> 32) \<or> n = 133 \<or> n = 160)"

definition py_strip :: "string \<Rightarrow> string" where
  "py_strip s = rev (dropWhile is_space (rev (dropWhile is_space s)))"

text \<open>
  The white space that \<^verbatim>\<open>float()\<close> itself skips at both ends of its argument: it
  turns the white space beyond ASCII (133 and 160) into blanks and then skips 9 to 13
  and the blank. The separators 28 to 31 are not skipped.
\<close>

definition float_space :: "char \<Rightarrow> bool" where
  "float_space c =
     (let n = (of_char c :: nat) in (9 \<le> n \<and> n \<le> 13) \<or> n = 32 \<or> n = 133 \<or> n = 160)"

definition float_strip :: "string \<Rightarrow> string" where
  "float_strip s = rev (dropWhile float_space (rev (dropWhile float_space s)))"

section \<open>Floats and \<^verbatim>\<open>float(str)\<close>\<close>

text \<open>
  A Python float is a double: a finite number, an infinity or not-a-number. A finite
  double is kept as the rational number it stands for (the sign of zero is not kept).
  Every operation on floats below gives the exact result rounded to the nearest double,
  a tie to the one with the even significand, as IEEE 754 arithmetic does.
\<close>

datatype pyfloat = Fin rat | PInf | NInf | NaN

text \<open>\<^verbatim>\<open>n.bit_length()\<close> for an integer, and the powers of two.\<close>

function bit_length :: "int \<Rightarrow> int" where
  "bit_length n = (if n \<le> 0 then 0 else 1 + bit_length (n div 2))"
  by pat_completeness auto
termination
  by (relation "measure nat") auto

declare bit_length.simps [simp del]

definition pow2 :: "int \<Rightarrow> rat" where
  "pow2 e = (if 0 \<le> e then 2 ^ nat e else 1 / 2 ^ nat (- e))"

text \<open>The binary exponent of a positive rational \<open>a\<close>: the \<open>e\<close> with
  \<open>2\<^sup>e \<le> a < 2\<^sup>e\<^sup>+\<^sup>1\<close>.\<close>

definition float_exponent :: "rat \<Rightarrow> int" where
  "float_exponent a =
     (let (p, q) = quotient_of a;
          e0 = bit_length p - bit_length q
      in if pow2 e0 \<le> a then e0 else e0 - 1)"

text \<open>Rounding to the nearest integer, a tie to the even one (\<^verbatim>\<open>rint\<close>).\<close>

definition round_half_even :: "rat \<Rightarrow> int" where
  "round_half_even y =
     (let f = \<lfloor>y\<rfloor>; d = y - of_int f
      in if d < 1 / 2 then f else if 1 / 2 < d then f + 1 else if even f then f else f + 1)"

text \<open>
  The double nearest to a rational: a double has a significand of 53 bits, so the
  doubles near \<open>x\<close> are the multiples of \<open>2\<^sup>e\<^sup>-\<^sup>5\<^sup>2\<close>, where \<open>e\<close> is the exponent of \<open>x\<close>
  and at least -1022 (below that the doubles are subnormal). A result of magnitude
  \<open>2\<^sup>1\<^sup>0\<^sup>2\<^sup>4\<close> or more is an infinity.
\<close>

definition round_double :: "rat \<Rightarrow> pyfloat" where
  "round_double x =
     (if x = 0 then Fin 0
      else
        (let a = \<bar>x\<bar>;
             e = float_exponent a;
             q = pow2 (max e (- 1022) - 52);
             n = round_half_even (a / q)
         in if 1023 < e \<or> (e = 1023 \<and> 2 ^ 53 \<le> n) then (if 0 < x then PInf else NInf)
            else Fin (if 0 < x then of_int n * q else - (of_int n * q))))"

definition to_double :: "pyfloat \<Rightarrow> pyfloat" where
  "to_double p = (case p of Fin x \<Rightarrow> round_double x | _ \<Rightarrow> p)"

definition is_digit :: "char \<Rightarrow> bool" where
  "is_digit c = (let n = (of_char c :: nat) in 48 \<le> n \<and> n \<le> 57)"

text \<open>The grammar of \<^verbatim>\<open>float()\<close>: \<^verbatim>\<open>digitpart ::= digit (["_"] digit)*\<close>.\<close>

fun digitpart :: "string \<Rightarrow> bool" where
  "digitpart [] = False"
| "digitpart [c] = is_digit c"
| "digitpart (c # d # cs) =
     (is_digit c \<and> (if d = CHR ''_'' then digitpart cs else digitpart (d # cs)))"

definition digits_val :: "string \<Rightarrow> nat" where
  "digits_val cs = foldl (\<lambda>a c. 10 * a + (of_char c - 48)) 0 (filter is_digit cs)"

text \<open>\<^verbatim>\<open>number ::= [digitpart] "." digitpart | digitpart ["."]\<close>\<close>

definition parse_number :: "string \<Rightarrow> rat option" where
  "parse_number m =
     (let ip = takeWhile (\<lambda>c. c \<noteq> CHR ''.'') m;
          rest = dropWhile (\<lambda>c. c \<noteq> CHR ''.'') m
      in if rest = [] then (if digitpart ip then Some (of_nat (digits_val ip)) else None)
         else
           (let fp = tl rest
            in if (ip = [] \<or> digitpart ip) \<and> (fp = [] \<or> digitpart fp) \<and> \<not> (ip = [] \<and> fp = [])
               then Some (of_nat (digits_val ip)
                          + of_nat (digits_val fp) / 10 ^ length (filter is_digit fp))
               else None))"

text \<open>\<^verbatim>\<open>exponent ::= ("e" | "E") [sign] digitpart\<close>, here without the letter.\<close>

definition parse_exponent :: "string \<Rightarrow> int option" where
  "parse_exponent ex =
     (case ex of
        c # ds \<Rightarrow>
          if c = CHR ''-'' then (if digitpart ds then Some (- int (digits_val ds)) else None)
          else if c = CHR ''+'' then (if digitpart ds then Some (int (digits_val ds)) else None)
          else if digitpart ex then Some (int (digits_val ex)) else None
      | [] \<Rightarrow> None)"

definition scale10 :: "rat \<Rightarrow> int \<Rightarrow> rat" where
  "scale10 x e = (if 0 \<le> e then x * 10 ^ nat e else x / 10 ^ nat (- e))"

definition is_exp_char :: "char \<Rightarrow> bool" where
  "is_exp_char c = (c = CHR ''e'' \<or> c = CHR ''E'')"

definition parse_floatnumber :: "string \<Rightarrow> rat option" where
  "parse_floatnumber r =
     (let m = takeWhile (\<lambda>c. \<not> is_exp_char c) r;
          rest = dropWhile (\<lambda>c. \<not> is_exp_char c) r
      in case parse_number m of
           None \<Rightarrow> None
         | Some x \<Rightarrow>
             if rest = [] then Some x
             else (case parse_exponent (tl rest) of
                     None \<Rightarrow> None
                   | Some e \<Rightarrow> Some (scale10 x e)))"

text \<open>
  \<^verbatim>\<open>float(s)\<close> for a string: \<open>None\<close> stands for the \<^verbatim>\<open>ValueError\<close> that Python
  raises when \<open>s\<close> is not a float literal. Surrounding white space is ignored, a sign
  may come first, and \<^verbatim>\<open>inf\<close>, \<^verbatim>\<open>infinity\<close> and \<^verbatim>\<open>nan\<close> are read in any letter case.
  The value is the double nearest to the decimal that was read.
\<close>

definition py_float :: "string \<Rightarrow> pyfloat option" where
  "py_float s0 =
     (let s = float_strip s0;
          neg = (s \<noteq> [] \<and> hd s = CHR ''-'');
          r = (if s \<noteq> [] \<and> (hd s = CHR ''-'' \<or> hd s = CHR ''+'') then tl s else s);
          u = py_upper r
      in if u = ''INF'' \<or> u = ''INFINITY'' then Some (if neg then NInf else PInf)
         else if u = ''NAN'' then Some NaN
         else (case parse_floatnumber r of
                 None \<Rightarrow> None
               | Some x \<Rightarrow> Some (round_double (if neg then - x else x))))"

text \<open>\<^verbatim>\<open>p <= t\<close> for a float \<open>p\<close> and a finite \<open>t\<close>. Every comparison with
  not-a-number is false.\<close>

definition float_le :: "pyfloat \<Rightarrow> rat \<Rightarrow> bool" where
  "float_le p t =
     (case p of Fin x \<Rightarrow> x \<le> t | NInf \<Rightarrow> True | PInf \<Rightarrow> False | NaN \<Rightarrow> False)"

section \<open>The normalizers of \<^verbatim>\<open>match-rates-script.py\<close>\<close>

text \<open>
  A Python dict keeps insertion order; the loops
  \<^verbatim>\<open>for k, v in table.items(): if test(k): return v\<close>
  return the value of the first key that passes the test.
\<close>

fun first_match :: "(string \<Rightarrow> bool) \<Rightarrow> (string \<times> string) list \<Rightarrow> string option" where
  "first_match P [] = None"
| "first_match P ((k, v) # kvs) = (if P k then Some v else first_match P kvs)"

definition ai_severity_map :: "(string \<times> string) list" where
  "ai_severity_map =
     [(''CRITICAL (A)'', ''A - SHOWSTOPPER''),
      (''MAJOR (B)'', ''B - MAJOR''),
      (''MINOR (C)'', ''C - MINOR''),
      (''SAFETY'', ''S - SAFETY ONLY'')]"

definition user_severity_map :: "(string \<times> string) list" where
  "user_severity_map =
     [(''A - SHOWSTOPPER'', ''A - SHOWSTOPPER''),
      (''B - MAJOR'', ''B - MAJOR''),
      (''C - MINOR'', ''C - MINOR''),
      (''S - SAFETY ONLY'', ''S - SAFETY ONLY'')]"

definition standardize_severity :: "cell \<Rightarrow> string option" where
  "standardize_severity severity0 =
     (if severity0 = PyNone then None
      else
        (let severity = py_upper (py_str severity0)
         in case first_match (\<lambda>ai_val. str_in ai_val severity) ai_severity_map of
              Some mapped_val \<Rightarrow> Some mapped_val
            | None \<Rightarrow>
                (case first_match (\<lambda>user_val. str_in user_val severity) user_severity_map of
                   Some mapped_val \<Rightarrow> Some mapped_val
                 | None \<Rightarrow> Some severity)))"

definition ai_occurrence_map :: "(string \<times> string) list" where
  "ai_occurrence_map =
     [(''CERTAIN'', ''CERTAIN''),
      (''VERY FREQUENT'', ''VERY FREQUENT''),
      (''FREQUENT'', ''FREQUENT''),
      (''RARE'', ''RARE'')]"

definition user_to_ai_map :: "(string \<times> string) list" where
  "user_to_ai_map =
     [(''ONCE'', ''RARE''),
      (''RARELY'', ''RARE''),
      (''UNDETERMINED'', ''RARE''),
      (''INTERMITTENT'', ''RARE''),
      (''LOW OCCURRENCE'', ''RARE''),
      (''SOMETIMES'', ''RARE''),
      (''25%'', ''FREQUENT''),
      (''50%'', ''FREQUENT''),
      (''75%'', ''FREQUENT''),
      (''ALWAYS'', ''CERTAIN''),
      (''FREQUENTLY'', ''FREQUENT'')]"

text \<open>
  The last part of \<^verbatim>\<open>standardize_occurrence\<close>, from \<^verbatim>\<open>if '%' in occurrence\<close> on:
  the \<^verbatim>\<open>try\<close> block returns a bucket, and the \<^verbatim>\<open>except ValueError: pass\<close> falls
  through to \<^verbatim>\<open>return occurrence\<close>.
\<close>

definition percentage_fallback :: "string \<Rightarrow> string" where
  "percentage_fallback occurrence =
     (if char_in (CHR ''%'') occurrence then
        (case py_float (py_strip (remove_char (CHR ''%'') occurrence)) of
           Some percentage \<Rightarrow>
             if float_le percentage 25 then ''FREQUENT''
             else if float_le percentage 75 then ''VERY FREQUENT''
             else ''CERTAIN''
         | None \<Rightarrow> occurrence)
      else occurrence)"

definition standardize_occurrence :: "cell \<Rightarrow> string option" where
  "standardize_occurrence occurrence0 =
     (if occurrence0 = PyNone then None
      else
        (let occurrence = py_upper (py_str occurrence0)
         in case first_match (\<lambda>ai_val. occurrence = ai_val) ai_occurrence_map of
              Some mapped_val \<Rightarrow> Some mapped_val
            | None \<Rightarrow>
                (case first_match (\<lambda>user_val. occurrence = user_val) user_to_ai_map of
                   Some mapped_val \<Rightarrow> Some mapped_val
                 | None \<Rightarrow> Some (percentage_fallback occurrence))))"

definition ai_priority_map :: "(string \<times> string) list" where
  "ai_priority_map =
     [(''BLOCKER'', ''BLOCKER''),
      (''URGENT'', ''CRITICAL''),
      (''HIGH'', ''MAJOR''),
      (''MEDIUM'', ''MAJOR''),
      (''LOW'', ''MINOR'')]"

definition user_priority_map :: "(string \<times> string) list" where
  "user_priority_map =
     [(''BLOCKER'', ''BLOCKER''),
      (''CRITICAL'', ''CRITICAL''),
      (''MAJOR'', ''MAJOR''),
      (''MINOR'', ''MINOR'')]"

definition standardize_priority :: "cell \<Rightarrow> string option" where
  "standardize_priority priority0 =
     (if priority0 = PyNone then None
      else
        (let priority = py_upper (py_str priority0)
         in case first_match (\<lambda>ai_val. ai_val = priority) ai_priority_map of
              Some mapped_val \<Rightarrow> Some mapped_val
            | None \<Rightarrow>
                (case first_match (\<lambda>user_val. user_val = priority) user_priority_map of
                   Some mapped_val \<Rightarrow> Some mapped_val
                 | None \<Rightarrow> Some priority)))"

section \<open>The aggregator: \<^verbatim>\<open>calculate_match_rates\<close>\<close>

text \<open>
  A data frame as \<^verbatim>\<open>pd.read_csv\<close> builds it: the column names of the header and one
  list of cells per row, in the order of the header. A row that is shorter than the
  header has \<^verbatim>\<open>nan\<close> in the columns it lacks.
\<close>

record dataframe =
  df_columns :: "string list"
  df_rows :: "cell list list"

fun col_pos :: "string \<Rightarrow> string list \<Rightarrow> nat option" where
  "col_pos c [] = None"
| "col_pos c (d # ds) = (if c = d then Some 0 else map_option Suc (col_pos c ds))"

definition cell_at :: "string list \<Rightarrow> cell list \<Rightarrow> string \<Rightarrow> cell" where
  "cell_at cols r c =
     (case col_pos c cols of
        Some i \<Rightarrow> if i < length r then r ! i else PyNaN
      | None \<Rightarrow> PyNaN)"

definition required_columns :: "string list" where
  "required_columns =
     [''user_severity'', ''ai_severity'',
      ''user_occurrence'', ''ai_occurrence'',
      ''user_priority'', ''ai_priority'']"

text \<open>One row of \<^verbatim>\<open>metrics_df\<close> when the function returns: the six selected columns,
  the six standardized ones and the four flags.\<close>

record metrics_row =
  user_severity :: cell
  ai_severity :: cell
  user_occurrence :: cell
  ai_occurrence :: cell
  user_priority :: cell
  ai_priority :: cell
  user_severity_std :: "string option"
  ai_severity_std :: "string option"
  user_occurrence_std :: "string option"
  ai_occurrence_std :: "string option"
  user_priority_std :: "string option"
  ai_priority_std :: "string option"
  severity_match :: bool
  occurrence_match :: bool
  priority_match :: bool
  all_match :: bool

text \<open>
  pandas on two columns of Python objects: \<^verbatim>\<open>a == b\<close> is false in every row where
  either side is null, and the comparison of the two objects elsewhere;
  \<^verbatim>\<open>notna()\<close> is false exactly for the null entries.
\<close>

definition pd_eq :: "string option \<Rightarrow> string option \<Rightarrow> bool" where
  "pd_eq a b = (case a of None \<Rightarrow> False | Some x \<Rightarrow> (case b of None \<Rightarrow> False | Some y \<Rightarrow> x = y))"

definition notna :: "string option \<Rightarrow> bool" where
  "notna v = (case v of None \<Rightarrow> False | Some _ \<Rightarrow> True)"

definition metrics_of_row :: "string list \<Rightarrow> cell list \<Rightarrow> metrics_row" where
  "metrics_of_row cols r =
     (let us = cell_at cols r ''user_severity'';
          as = cell_at cols r ''ai_severity'';
          uo = cell_at cols r ''user_occurrence'';
          ao = cell_at cols r ''ai_occurrence'';
          up = cell_at cols r ''user_priority'';
          ap = cell_at cols r ''ai_priority'';
          us_std = standardize_severity us;
          as_std = standardize_severity as;
          uo_std = standardize_occurrence uo;
          ao_std = standardize_occurrence ao;
          up_std = standardize_priority up;
          ap_std = standardize_priority ap;
          sm = pd_eq us_std as_std;
          om = pd_eq uo_std ao_std;
          pm = pd_eq up_std ap_std
      in \<lparr>user_severity = us, ai_severity = as,
          user_occurrence = uo, ai_occurrence = ao,
          user_priority = up, ai_priority = ap,
          user_severity_std = us_std, ai_severity_std = as_std,
          user_occurrence_std = uo_std, ai_occurrence_std = ao_std,
          user_priority_std = up_std, ai_priority_std = ap_std,
          severity_match = sm, occurrence_match = om, priority_match = pm,
          all_match = (sm \<and> om \<and> pm)\<rparr>)"

text \<open>\<^verbatim>\<open>column.sum()\<close> of a column of flags, and the local variables
  \<^verbatim>\<open>valid_severity\<close>, \<^verbatim>\<open>valid_occurrence\<close>, \<^verbatim>\<open>valid_priority\<close>, \<^verbatim>\<open>valid_all\<close>.\<close>

definition count_true :: "(metrics_row \<Rightarrow> bool) \<Rightarrow> metrics_row list \<Rightarrow> nat" where
  "count_true flag m = length (filter flag m)"

definition valid_severity :: "metrics_row list \<Rightarrow> nat" where
  "valid_severity m = count_true (\<lambda>r. notna (user_severity_std r) \<and> notna (ai_severity_std r)) m"

definition valid_occurrence :: "metrics_row list \<Rightarrow> nat" where
  "valid_occurrence m =
     count_true (\<lambda>r. notna (user_occurrence_std r) \<and> notna (ai_occurrence_std r)) m"

definition valid_priority :: "metrics_row list \<Rightarrow> nat" where
  "valid_priority m = count_true (\<lambda>r. notna (user_priority_std r) \<and> notna (ai_priority_std r)) m"

definition all_six_notna :: "metrics_row \<Rightarrow> bool" where
  "all_six_notna r =
     (notna (user_severity_std r) \<and> notna (ai_severity_std r) \<and>
      notna (user_occurrence_std r) \<and> notna (ai_occurrence_std r) \<and>
      notna (user_priority_std r) \<and> notna (ai_priority_std r))"

definition valid_all :: "metrics_row list \<Rightarrow> nat" where
  "valid_all m = count_true all_six_notna m"

text \<open>
  Arithmetic on numpy numbers. The quotient of two integer counts is a double, the
  nearest one to the exact quotient, and a division by zero gives \<^verbatim>\<open>nan\<close> or
  \<^verbatim>\<open>inf\<close> with a warning, no exception. A count is taken to be a double as it is,
  which holds for the counts below \<open>2\<^sup>5\<^sup>3\<close>. The product of a double and a finite
  factor is rounded in the same way.
\<close>

definition np_divide :: "nat \<Rightarrow> nat \<Rightarrow> pyfloat" where
  "np_divide a b =
     (if b = 0 then (if a = 0 then NaN else PInf) else round_double (of_nat a / of_nat b))"

definition float_times :: "pyfloat \<Rightarrow> rat \<Rightarrow> pyfloat" where
  "float_times p c =
     (case p of
        Fin x \<Rightarrow> round_double (x * c)
      | PInf \<Rightarrow> if 0 < c then PInf else if c < 0 then NInf else NaN
      | NInf \<Rightarrow> if 0 < c then NInf else if c < 0 then PInf else NaN
      | NaN \<Rightarrow> NaN)"

text \<open>\<^verbatim>\<open>(matches / valid * 100) if valid > 0 else 0\<close>\<close>

definition match_rate :: "nat \<Rightarrow> nat \<Rightarrow> pyfloat" where
  "match_rate matches valid =
     (if valid > 0 then float_times (np_divide matches valid) 100 else Fin 0)"

definition severity_match_rate :: "metrics_row list \<Rightarrow> pyfloat" where
  "severity_match_rate m = match_rate (count_true severity_match m) (valid_severity m)"

definition occurrence_match_rate :: "metrics_row list \<Rightarrow> pyfloat" where
  "occurrence_match_rate m = match_rate (count_true occurrence_match m) (valid_occurrence m)"

definition priority_match_rate :: "metrics_row list \<Rightarrow> pyfloat" where
  "priority_match_rate m = match_rate (count_true priority_match m) (valid_priority m)"

definition overall_match_rate :: "metrics_row list \<Rightarrow> pyfloat" where
  "overall_match_rate m = match_rate (count_true all_match m) (valid_all m)"

text \<open>
  \<^verbatim>\<open>round(x, 2)\<close>. A rate is a numpy double, and \<^verbatim>\<open>round\<close> calls its
  \<^verbatim>\<open>__round__\<close>, which is numpy's rounding to decimals: the value times 100, rounded
  to the nearest integer (a tie to the even one), divided by 100. The integer 0 of the
  \<^verbatim>\<open>else\<close> branch stays 0.
\<close>

definition py_round2 :: "pyfloat \<Rightarrow> pyfloat" where
  "py_round2 p =
     (case float_times p 100 of
        Fin y \<Rightarrow> round_double (of_int (round_half_even y) / 100)
      | q \<Rightarrow> q)"

text \<open>The dictionary \<^verbatim>\<open>results\<close>, one field per key, in the order of the source.\<close>

record results =
  Severity_Match_Rate :: pyfloat
  Occurrence_Match_Rate :: pyfloat
  Priority_Match_Rate :: pyfloat
  Overall_Match_Rate :: pyfloat
  Total_Issues_Analyzed :: nat
  Valid_Severity_Comparisons :: nat
  Valid_Occurrence_Comparisons :: nat
  Valid_Priority_Comparisons :: nat

text \<open>
  \<open>Inl missing_columns\<close>: the function printed the warning that names these columns and
  returned \<^verbatim>\<open>None\<close>. \<open>Inr (results, metrics_df)\<close>: the pair it returns otherwise.
\<close>

definition calculate_match_rates :: "dataframe \<Rightarrow> string list + (results \<times> metrics_row list)" where
  "calculate_match_rates df =
     (let missing_columns = filter (\<lambda>col. col \<notin> set (df_columns df)) required_columns
      in if missing_columns \<noteq> [] then Inl missing_columns
         else
           (let metrics_df = map (metrics_of_row (df_columns df)) (df_rows df)
            in Inr (\<lparr>Severity_Match_Rate = py_round2 (severity_match_rate metrics_df),
                      Occurrence_Match_Rate = py_round2 (occurrence_match_rate metrics_df),
                      Priority_Match_Rate = py_round2 (priority_match_rate metrics_df),
                      Overall_Match_Rate = py_round2 (overall_match_rate metrics_df),
                      Total_Issues_Analyzed = length (df_rows df),
                      Valid_Severity_Comparisons = valid_severity metrics_df,
                      Valid_Occurrence_Comparisons = valid_occurrence metrics_df,
                      Valid_Priority_Comparisons = valid_priority metrics_df\<rparr>,
                    metrics_df)))"

section \<open>The visualization: \<^verbatim>\<open>create_comparison_visualization\<close>\<close>

text \<open>
  A measurement is a dictionary; its values are whatever the parsers or the caller put
  there: \<^verbatim>\<open>None\<close>, a number or a string. \<^verbatim>\<open>float(v)\<close> raises \<^verbatim>\<open>TypeError\<close> for
  \<^verbatim>\<open>None\<close> and \<^verbatim>\<open>ValueError\<close> for a string that is no float literal; both are
  \<open>None\<close> here, since the source catches both in one clause. A number becomes the
  nearest double (itself, when it is a double already).
\<close>

datatype pyval = VNone | VNum pyfloat | VStr string

type_synonym measurement = "(string \<times> pyval) list"

definition to_float :: "pyval \<Rightarrow> pyfloat option" where
  "to_float v =
     (case v of VNone \<Rightarrow> None | VNum x \<Rightarrow> Some (to_double x) | VStr s \<Rightarrow> py_float s)"

text \<open>\<^verbatim>\<open>data.get(k1, data.get(k2, 0))\<close>\<close>

definition dict_get2 :: "measurement \<Rightarrow> string \<Rightarrow> string \<Rightarrow> pyval" where
  "dict_get2 data k1 k2 =
     (case map_of data k1 of
        Some v \<Rightarrow> v
      | None \<Rightarrow> (case map_of data k2 of Some v \<Rightarrow> v | None \<Rightarrow> VNum (Fin 0)))"

text \<open>The three look-ups and the \<^verbatim>\<open>try\<close> block of the loop body; \<open>None\<close> is the
  \<^verbatim>\<open>continue\<close> of the \<^verbatim>\<open>except\<close> clause, which drops the whole measurement.\<close>

definition extract_rates :: "measurement \<Rightarrow> (pyfloat \<times> pyfloat \<times> pyfloat) option" where
  "extract_rates data =
     (let severity = dict_get2 data ''Severity Match Rate (%)'' ''severity_match_rate'';
          occurrence = dict_get2 data ''Occurrence Match Rate (%)'' ''occurrence_match_rate'';
          priority = dict_get2 data ''Priority Match Rate (%)'' ''priority_match_rate''
      in case to_float severity of
           None \<Rightarrow> None
         | Some s \<Rightarrow>
             (case to_float occurrence of
                None \<Rightarrow> None
              | Some oc \<Rightarrow>
                  (case to_float priority of
                     None \<Rightarrow> None
                   | Some p \<Rightarrow> Some (s, oc, p))))"

text \<open>\<^verbatim>\<open>str(n)\<close> for a natural number, for the label \<^verbatim>\<open>f"Measurement {i+1}"\<close>.\<close>

fun str_nat :: "nat \<Rightarrow> string" where
  "str_nat n =
     (if n < 10 then [char_of (48 + n)] else str_nat (n div 10) @ [char_of (48 + n mod 10)])"

declare str_nat.simps [simp del]

definition measurement_label :: "string list \<Rightarrow> nat \<Rightarrow> string" where
  "measurement_label labels i =
     (if labels \<noteq> [] \<and> i < length labels then labels ! i
      else ''Measurement '' @ str_nat (i + 1))"

text \<open>One row of the long frame \<^verbatim>\<open>df\<close>: the columns \<^verbatim>\<open>Measurement\<close>, \<^verbatim>\<open>Metric\<close> and
  \<^verbatim>\<open>Match Rate (%)\<close>.\<close>

record long_row =
  Measurement :: string
  Metric :: string
  Match_Rate :: pyfloat

text \<open>The loop over \<^verbatim>\<open>enumerate(data_list)\<close> that fills \<^verbatim>\<open>df_data\<close>; \<open>i\<close> is the index
  of the first measurement of the list. An absent \<^verbatim>\<open>labels\<close> is the empty list.\<close>

fun build_df_data :: "string list \<Rightarrow> nat \<Rightarrow> measurement list \<Rightarrow> long_row list" where
  "build_df_data labels i [] = []"
| "build_df_data labels i (data # rest) =
     (let label = measurement_label labels i
      in case extract_rates data of
           None \<Rightarrow> build_df_data labels (Suc i) rest
         | Some (severity, occurrence, priority) \<Rightarrow>
             [\<lparr>Measurement = label, Metric = ''Severity'', Match_Rate = severity\<rparr>,
              \<lparr>Measurement = label, Metric = ''Occurrence'', Match_Rate = occurrence\<rparr>,
              \<lparr>Measurement = label, Metric = ''Priority'', Match_Rate = priority\<rparr>]
             @ build_df_data labels (Suc i) rest)"

text \<open>
  Float addition and the division of a float by a positive count, both rounded to the
  nearest double.
\<close>

fun float_add :: "pyfloat \<Rightarrow> pyfloat \<Rightarrow> pyfloat" where
  "float_add (Fin x) (Fin y) = round_double (x + y)"
| "float_add NaN _ = NaN"
| "float_add _ NaN = NaN"
| "float_add PInf NInf = NaN"
| "float_add NInf PInf = NaN"
| "float_add PInf _ = PInf"
| "float_add _ PInf = PInf"
| "float_add NInf _ = NInf"
| "float_add _ NInf = NInf"

definition float_div_count :: "pyfloat \<Rightarrow> nat \<Rightarrow> pyfloat" where
  "float_div_count p n = (case p of Fin x \<Rightarrow> round_double (x / of_nat n) | _ \<Rightarrow> p)"

text \<open>
  The sum of an array of doubles is the work of the library, and the order in which it
  adds is not fixed by the source: numpy adds an array of fewer than eight values from
  left to right and a longer one in blocks. The functions below take the summation
  routine as the parameter \<open>np_sum\<close>; \<open>seq_sum\<close> is the sum from left to right.
\<close>

definition seq_sum :: "pyfloat list \<Rightarrow> pyfloat" where
  "seq_sum xs = foldl float_add (Fin 0) xs"

text \<open>
  pandas' \<^verbatim>\<open>mean()\<close>: the entries that are \<^verbatim>\<open>nan\<close> are replaced by 0 and not
  counted, the sum is divided by the count, and the mean of no entries is \<^verbatim>\<open>nan\<close>.
\<close>

definition nanmean :: "(pyfloat list \<Rightarrow> pyfloat) \<Rightarrow> pyfloat list \<Rightarrow> pyfloat" where
  "nanmean np_sum xs =
     (let count = length (filter (\<lambda>x. x \<noteq> NaN) xs);
          the_sum = np_sum (map (\<lambda>x. if x = NaN then Fin 0 else x) xs)
      in if count > 0 then float_div_count the_sum count else NaN)"

text \<open>\<^verbatim>\<open>df[df['Metric'] == metric]['Match Rate (%)'].mean()\<close>\<close>

definition metric_avg ::
    "(pyfloat list \<Rightarrow> pyfloat) \<Rightarrow> long_row list \<Rightarrow> string \<Rightarrow> pyfloat" where
  "metric_avg np_sum df metric =
     nanmean np_sum (map Match_Rate (filter (\<lambda>r. Metric r = metric) df))"

text \<open>
  \<^verbatim>\<open>df.pivot(index='Measurement', columns='Metric', values='Match Rate (%)')\<close>:
  the sorted labels down, the sorted metric names across, and \<^verbatim>\<open>ValueError\<close> when a pair
  of label and metric occurs twice. A pair that does not occur gives \<^verbatim>\<open>nan\<close>.
\<close>

datatype vis_error = NoData | PlotError | DuplicateEntries

record pivot_table =
  pt_columns :: "string list"
  pt_rows :: "(string \<times> pyfloat list) list"

definition pivot_cell :: "long_row list \<Rightarrow> string \<Rightarrow> string \<Rightarrow> pyfloat" where
  "pivot_cell df l c =
     (case find (\<lambda>r. Measurement r = l \<and> Metric r = c) df of
        Some r \<Rightarrow> Match_Rate r
      | None \<Rightarrow> NaN)"

definition pivot :: "long_row list \<Rightarrow> vis_error + pivot_table" where
  "pivot df =
     (if \<not> distinct (map (\<lambda>r. (Measurement r, Metric r)) df) then Inl DuplicateEntries
      else
        (let idx = sort (remdups (map Measurement df));
             cols = sort (remdups (map Metric df))
         in Inr \<lparr>pt_columns = cols,
                 pt_rows = map (\<lambda>l. (l, map (pivot_cell df l) cols)) idx\<rparr>))"

text \<open>\<^verbatim>\<open>pivot_df.mean(axis=0)\<close>, one mean per column.\<close>

definition column_means :: "(pyfloat list \<Rightarrow> pyfloat) \<Rightarrow> pivot_table \<Rightarrow> pyfloat list" where
  "column_means np_sum pt =
     map (\<lambda>j. nanmean np_sum (map (\<lambda>row. snd row ! j) (pt_rows pt)))
       [0..<length (pt_columns pt)]"

text \<open>\<^verbatim>\<open>pivot_df.loc[label] = values\<close>: the row of that label is overwritten, or a new
  row is appended when the label is not in the index.\<close>

definition loc_assign :: "pivot_table \<Rightarrow> string \<Rightarrow> pyfloat list \<Rightarrow> pivot_table" where
  "loc_assign pt label vals =
     (if label \<in> fst ` set (pt_rows pt)
      then pt\<lparr>pt_rows := map (\<lambda>row. if fst row = label then (label, vals) else row) (pt_rows pt)\<rparr>
      else pt\<lparr>pt_rows := pt_rows pt @ [(label, vals)]\<rparr>)"

text \<open>
  What the function leaves behind once the chart is drawn: the bars of the chart (the
  long frame), the height of the dashed average line of each metric, and the frame
  \<^verbatim>\<open>pivot_df\<close> with its \<^verbatim>\<open>AVERAGE\<close> row, before it is rounded for printing. The chart
  is drawn and saved before the table is made: \<open>pivot_df = Inl DuplicateEntries\<close> says
  that \<^verbatim>\<open>pivot\<close> raised and the function ended there, without a table.
  \<open>Inl NoData\<close> is the early return on an empty \<^verbatim>\<open>data_list\<close>, and \<open>Inl PlotError\<close> is
  the exception of \<^verbatim>\<open>sns.barplot\<close> on a frame without columns, when every measurement
  was dropped; in both cases nothing is drawn.
\<close>

record vis_output =
  bars :: "long_row list"
  average_lines :: "(string \<times> pyfloat) list"
  pivot_df :: "vis_error + pivot_table"

definition create_comparison_visualization ::
    "(pyfloat list \<Rightarrow> pyfloat) \<Rightarrow> measurement list \<Rightarrow> string list \<Rightarrow> vis_error + vis_output" where
  "create_comparison_visualization np_sum data_list labels =
     (if data_list = [] then Inl NoData
      else
        (let df = build_df_data labels 0 data_list
         in if df = [] then Inl PlotError
            else
              (let lines = map (\<lambda>metric. (metric, metric_avg np_sum df metric))
                               [''Severity'', ''Occurrence'', ''Priority'']
               in Inr \<lparr>bars = df, average_lines = lines,
                       pivot_df =
                         (case pivot df of
                            Inl e \<Rightarrow> Inl e
                          | Inr pivot_df0 \<Rightarrow>
                              (let metric_averages = column_means np_sum pivot_df0
                               in Inr (loc_assign pivot_df0 ''AVERAGE'' metric_averages)))\<rparr>)))"

section \<open>Properties of the normalizers\<close>

subsection \<open>Auxiliary facts\<close>

lemma upper_char_idem: "upper_char (upper_char c) = upper_char c"
  by (auto simp: upper_char_def Let_def)

lemma upper_char_not_sharp_s: "(of_char c :: nat) \<noteq> 223 \<Longrightarrow> (of_char (upper_char c) :: nat) \<noteq> 223"
  by (auto simp: upper_char_def Let_def)

lemma upper_text_idem: "concat (map upper_text (upper_text c)) = upper_text c"
proof (cases "(of_char c :: nat) = 223")
  case True
  have "upper_text (CHR ''S'') = ''S''"
    by (simp add: upper_text_def upper_char_def)
  with True show ?thesis
    by (simp add: upper_text_def)
next
  case False
  with upper_char_not_sharp_s [of c] show ?thesis
    by (simp add: upper_text_def upper_char_idem)
qed

lemma py_upper_idem: "py_upper (py_upper s) = py_upper s"
  unfolding py_upper_def
  by (induction s) (simp_all add: upper_text_idem)

lemma first_match_value: "first_match P t = Some v \<Longrightarrow> v \<in> snd ` set t"
  by (induction P t rule: first_match.induct) (auto split: if_splits)

lemma severity_labels_fixed:
  "standardize_severity (PyStr ''A - SHOWSTOPPER'') = Some ''A - SHOWSTOPPER''"
  "standardize_severity (PyStr ''B - MAJOR'') = Some ''B - MAJOR''"
  "standardize_severity (PyStr ''C - MINOR'') = Some ''C - MINOR''"
  "standardize_severity (PyStr ''S - SAFETY ONLY'') = Some ''S - SAFETY ONLY''"
  by code_simp+

lemma occurrence_labels_fixed:
  "standardize_occurrence (PyStr ''CERTAIN'') = Some ''CERTAIN''"
  "standardize_occurrence (PyStr ''VERY FREQUENT'') = Some ''VERY FREQUENT''"
  "standardize_occurrence (PyStr ''FREQUENT'') = Some ''FREQUENT''"
  "standardize_occurrence (PyStr ''RARE'') = Some ''RARE''"
  by code_simp+

lemma priority_labels_fixed:
  "standardize_priority (PyStr ''BLOCKER'') = Some ''BLOCKER''"
  "standardize_priority (PyStr ''CRITICAL'') = Some ''CRITICAL''"
  "standardize_priority (PyStr ''MAJOR'') = Some ''MAJOR''"
  "standardize_priority (PyStr ''MINOR'') = Some ''MINOR''"
  by code_simp+

lemma percentage_fallback_cases:
  "percentage_fallback u = ''FREQUENT'' \<or> percentage_fallback u = ''VERY FREQUENT'' \<or>
   percentage_fallback u = ''CERTAIN'' \<or> percentage_fallback u = u"
  by (auto simp: percentage_fallback_def split: option.splits)

lemma severity_idem:
  "\<exists>t. standardize_severity (PyStr s) = Some t \<and> standardize_severity (PyStr t) = Some t"
proof (cases "first_match (\<lambda>k. str_in k (py_upper s)) ai_severity_map")
  case (Some v)
  then have "v \<in> snd ` set ai_severity_map" by (rule first_match_value)
  then have "standardize_severity (PyStr v) = Some v"
    by (auto simp: ai_severity_map_def severity_labels_fixed)
  with Some show ?thesis by (simp add: standardize_severity_def)
next
  case None
  note ai = this
  show ?thesis
  proof (cases "first_match (\<lambda>k. str_in k (py_upper s)) user_severity_map")
    case (Some v)
    then have "v \<in> snd ` set user_severity_map" by (rule first_match_value)
    then have "standardize_severity (PyStr v) = Some v"
      by (auto simp: user_severity_map_def severity_labels_fixed)
    with Some ai show ?thesis by (simp add: standardize_severity_def)
  next
    case None
    with ai show ?thesis by (simp add: standardize_severity_def py_upper_idem)
  qed
qed

lemma occurrence_idem:
  "\<exists>t. standardize_occurrence (PyStr s) = Some t \<and> standardize_occurrence (PyStr t) = Some t"
proof (cases "first_match (\<lambda>k. py_upper s = k) ai_occurrence_map")
  case (Some v)
  then have "v \<in> snd ` set ai_occurrence_map" by (rule first_match_value)
  then have "standardize_occurrence (PyStr v) = Some v"
    by (auto simp: ai_occurrence_map_def occurrence_labels_fixed)
  with Some show ?thesis by (simp add: standardize_occurrence_def)
next
  case None
  note ai = this
  show ?thesis
  proof (cases "first_match (\<lambda>k. py_upper s = k) user_to_ai_map")
    case (Some v)
    then have "v \<in> snd ` set user_to_ai_map" by (rule first_match_value)
    then have "standardize_occurrence (PyStr v) = Some v"
      by (auto simp: user_to_ai_map_def occurrence_labels_fixed)
    with Some ai show ?thesis by (simp add: standardize_occurrence_def)
  next
    case None
    note us = this
    have r: "standardize_occurrence (PyStr s) = Some (percentage_fallback (py_upper s))"
      using ai us by (simp add: standardize_occurrence_def)
    consider (label) "percentage_fallback (py_upper s) \<in> {''FREQUENT'', ''VERY FREQUENT'', ''CERTAIN''}"
      | (verbatim) "percentage_fallback (py_upper s) = py_upper s"
      using percentage_fallback_cases [of "py_upper s"] by auto
    then show ?thesis
    proof cases
      case label
      then have "standardize_occurrence (PyStr (percentage_fallback (py_upper s)))
                 = Some (percentage_fallback (py_upper s))"
        by (auto simp: occurrence_labels_fixed)
      with r show ?thesis by simp
    next
      case verbatim
      then have "standardize_occurrence (PyStr (py_upper s)) = Some (py_upper s)"
        using ai us by (simp add: standardize_occurrence_def py_upper_idem)
      with r verbatim show ?thesis by simp
    qed
  qed
qed

lemma priority_idem:
  "\<exists>t. standardize_priority (PyStr s) = Some t \<and> standardize_priority (PyStr t) = Some t"
proof (cases "first_match (\<lambda>k. k = py_upper s) ai_priority_map")
  case (Some v)
  then have "v \<in> snd ` set ai_priority_map" by (rule first_match_value)
  then have "standardize_priority (PyStr v) = Some v"
    by (auto simp: ai_priority_map_def priority_labels_fixed)
  with Some show ?thesis by (simp add: standardize_priority_def)
next
  case None
  note ai = this
  show ?thesis
  proof (cases "first_match (\<lambda>k. k = py_upper s) user_priority_map")
    case (Some v)
    then have "v \<in> snd ` set user_priority_map" by (rule first_match_value)
    then have "standardize_priority (PyStr v) = Some v"
      by (auto simp: user_priority_map_def priority_labels_fixed)
    with Some ai show ?thesis by (simp add: standardize_priority_def)
  next
    case None
    with ai show ?thesis by (simp add: standardize_priority_def py_upper_idem)
  qed
qed

lemma standardize_None_iff:
  "standardize_severity x = None \<longleftrightarrow> x = PyNone"
  "standardize_occurrence x = None \<longleftrightarrow> x = PyNone"
  "standardize_priority x = None \<longleftrightarrow> x = PyNone"
  by (simp_all add: standardize_severity_def standardize_occurrence_def
      standardize_priority_def Let_def split: option.splits)

lemma exact_percent_keys_parse:
  "py_float (py_strip (remove_char (CHR ''%'') ''25%'')) \<noteq> None"
  "py_float (py_strip (remove_char (CHR ''%'') ''50%'')) \<noteq> None"
  "py_float (py_strip (remove_char (CHR ''%'') ''75%'')) \<noteq> None"
  by code_simp+

lemma occurrence_fall_through:
  assumes "x \<noteq> PyNone"
    and "char_in (CHR ''%'') (py_upper (py_str x))"
    and "py_float (py_strip (remove_char (CHR ''%'') (py_upper (py_str x)))) = None"
  shows "standardize_occurrence x = Some (py_upper (py_str x))"
proof -
  let ?u = "py_upper (py_str x)"
  have pf: "percentage_fallback ?u = ?u"
    using assms by (simp add: percentage_fallback_def)
  have "first_match (\<lambda>k. ?u = k) ai_occurrence_map = None"
    using assms(2) by (auto simp: ai_occurrence_map_def char_in_def)
  moreover have "first_match (\<lambda>k. ?u = k) user_to_ai_map = None"
    using assms(2,3) exact_percent_keys_parse by (auto simp: user_to_ai_map_def char_in_def)
  ultimately show ?thesis
    using assms(1) pf by (simp add: standardize_occurrence_def)
qed

subsection \<open>Occurrence: exact tables before the percentage buckets\<close>

text \<open>
  Claim C3. \<^verbatim>\<open>standardize_occurrence\<close> looks a value up in the two exact tables before it
  tries the percentage buckets: \<^verbatim>\<open>ALWAYS\<close> gives \<^verbatim>\<open>CERTAIN\<close> and \<^verbatim>\<open>75%\<close> gives
  \<^verbatim>\<open>FREQUENT\<close> from the table, although the buckets alone would put \<^verbatim>\<open>75%\<close> in
  \<^verbatim>\<open>VERY FREQUENT\<close>; the percentages that are in no table are bucketed:
  \<^verbatim>\<open>10%\<close> is \<^verbatim>\<open>FREQUENT\<close>, \<^verbatim>\<open>60%\<close> is \<^verbatim>\<open>VERY FREQUENT\<close>, \<^verbatim>\<open>90%\<close> is \<^verbatim>\<open>CERTAIN\<close>.
\<close>

theorem occurrence_tables_before_buckets:
  "standardize_occurrence (PyStr ''ALWAYS'') = Some ''CERTAIN'' \<and>
   standardize_occurrence (PyStr ''75%'') = Some ''FREQUENT'' \<and>
   percentage_fallback ''75%'' = ''VERY FREQUENT'' \<and>
   standardize_occurrence (PyStr ''10%'') = Some ''FREQUENT'' \<and>
   standardize_occurrence (PyStr ''60%'') = Some ''VERY FREQUENT'' \<and>
   standardize_occurrence (PyStr ''90%'') = Some ''CERTAIN''"
  by code_simp

subsection \<open>Severity: the examples of the specification\<close>

text \<open>
  Claim C4, as stated: each of \<^verbatim>\<open>CRITICAL (A)\<close>, \<^verbatim>\<open>URGENT (A)x\<close> and
  \<^verbatim>\<open>A - SHOWSTOPPER\<close> is normalized to the showstopper label. This fails for
  \<^verbatim>\<open>URGENT (A)x\<close>: none of the eight patterns of the two severity tables is a substring
  of \<^verbatim>\<open>URGENT (A)X\<close>.
\<close>

theorem severity_urgent_not_showstopper:
  "standardize_severity (PyStr ''URGENT (A)x'') \<noteq> Some ''A - SHOWSTOPPER''"
  by code_simp

text \<open>
  Claim C4, amended: \<^verbatim>\<open>CRITICAL (A)\<close> and \<^verbatim>\<open>A - SHOWSTOPPER\<close> are normalized to the
  showstopper label \<^verbatim>\<open>A - SHOWSTOPPER\<close>; \<^verbatim>\<open>URGENT (A)x\<close> and \<^verbatim>\<open>whatever-unmapped\<close>
  match no pattern and come back verbatim in upper case.
\<close>

theorem severity_examples:
  "standardize_severity (PyStr ''CRITICAL (A)'') = Some ''A - SHOWSTOPPER'' \<and>
   standardize_severity (PyStr ''A - SHOWSTOPPER'') = Some ''A - SHOWSTOPPER'' \<and>
   standardize_severity (PyStr ''URGENT (A)x'') = Some ''URGENT (A)X'' \<and>
   standardize_severity (PyStr ''whatever-unmapped'') = Some ''WHATEVER-UNMAPPED''"
  by code_simp

subsection \<open>Letter case and surrounding white space\<close>

text \<open>
  Claim C5, as stated: a value is upper-cased and trimmed before it is matched, so two
  values that differ in surrounding white space only get the same label. The source
  upper-cases but never trims (its one \<^verbatim>\<open>strip()\<close> is applied to the digits of a
  percentage): \<^verbatim>\<open>" HIGH"\<close> and \<^verbatim>\<open>"HIGH"\<close> are equal after trimming and get different
  priority labels.
\<close>

theorem priority_not_trimmed:
  "py_strip '' HIGH'' = py_strip ''HIGH'' \<and>
   standardize_priority (PyStr '' HIGH'') = Some '' HIGH'' \<and>
   standardize_priority (PyStr ''HIGH'') = Some ''MAJOR''"
  by code_simp

text \<open>
  Claim C5, amended: for every value that is not \<^verbatim>\<open>None\<close> each normalizer upper-cases
  the value before any table is consulted (it does not trim it): the result is that of
  the upper-cased text, and two values that differ in letter case only get the same
  label.
\<close>

theorem normalizers_ignore_case:
  assumes "x \<noteq> PyNone" and "y \<noteq> PyNone"
    and "py_upper (py_str x) = py_upper (py_str y)"
  shows "standardize_severity x = standardize_severity y \<and>
         standardize_occurrence x = standardize_occurrence y \<and>
         standardize_priority x = standardize_priority y \<and>
         standardize_severity x = standardize_severity (PyStr (py_upper (py_str x))) \<and>
         standardize_occurrence x = standardize_occurrence (PyStr (py_upper (py_str x))) \<and>
         standardize_priority x = standardize_priority (PyStr (py_upper (py_str x)))"
  using assms
  by (simp add: standardize_severity_def standardize_occurrence_def standardize_priority_def
      py_upper_idem)

theorem normalizers_ignore_case_witness:
  "PyStr ''high'' \<noteq> PyNone \<and> PyStr ''HiGh'' \<noteq> PyNone \<and>
   py_upper (py_str (PyStr ''high'')) = py_upper (py_str (PyStr ''HiGh'')) \<and>
   standardize_severity (PyStr ''high'') = standardize_severity (PyStr ''HiGh'') \<and>
   standardize_occurrence (PyStr ''high'') = standardize_occurrence (PyStr ''HiGh'') \<and>
   standardize_priority (PyStr ''high'') = standardize_priority (PyStr ''HiGh'') \<and>
   standardize_priority (PyStr ''HiGh'') = Some ''MAJOR''"
proof -
  have a: "PyStr ''high'' \<noteq> PyNone" and b: "PyStr ''HiGh'' \<noteq> PyNone"
    by simp_all
  have c: "py_upper (py_str (PyStr ''high'')) = py_upper (py_str (PyStr ''HiGh''))"
    by code_simp
  have d: "standardize_priority (PyStr ''HiGh'') = Some ''MAJOR''"
    by code_simp
  from normalizers_ignore_case [OF a b c] a b c d show ?thesis
    by blast
qed

subsection \<open>Totality and the unparseable percentage\<close>

text \<open>
  Claim C8. Each normalizer returns a value for every input and raises nothing: it
  returns \<^verbatim>\<open>None\<close> for \<^verbatim>\<open>None\<close> and a string for everything else. The one exception
  that can arise, the \<^verbatim>\<open>ValueError\<close> of \<^verbatim>\<open>float()\<close>, is caught: an occurrence value
  that contains \<^verbatim>\<open>%\<close> and whose numeric part is no float literal comes back verbatim
  in upper case.
\<close>

theorem normalizers_total:
  "(standardize_severity x = None \<longleftrightarrow> x = PyNone) \<and>
   (standardize_occurrence x = None \<longleftrightarrow> x = PyNone) \<and>
   (standardize_priority x = None \<longleftrightarrow> x = PyNone) \<and>
   (x \<noteq> PyNone \<and> char_in (CHR ''%'') (py_upper (py_str x)) \<and>
    py_float (py_strip (remove_char (CHR ''%'') (py_upper (py_str x)))) = None
    \<longrightarrow> standardize_occurrence x = Some (py_upper (py_str x)))"
  using standardize_None_iff [of x] occurrence_fall_through [of x] by blast

theorem normalizers_total_witness:
  "PyStr ''abc%'' \<noteq> PyNone \<and>
   char_in (CHR ''%'') (py_upper (py_str (PyStr ''abc%''))) \<and>
   py_float (py_strip (remove_char (CHR ''%'') (py_upper (py_str (PyStr ''abc%''))))) = None \<and>
   py_upper (py_str (PyStr ''abc%'')) = ''ABC%'' \<and>
   standardize_occurrence (PyStr ''abc%'') = Some ''ABC%''"
proof -
  have a: "PyStr ''abc%'' \<noteq> PyNone"
    by simp
  have b: "char_in (CHR ''%'') (py_upper (py_str (PyStr ''abc%'')))"
    by code_simp
  have c: "py_float (py_strip (remove_char (CHR ''%'') (py_upper (py_str (PyStr ''abc%''))))) = None"
    by code_simp
  have d: "py_upper (py_str (PyStr ''abc%'')) = ''ABC%''"
    by code_simp
  from normalizers_total [of "PyStr ''abc%''"] a b c
  have "standardize_occurrence (PyStr ''abc%'') = Some (py_upper (py_str (PyStr ''abc%'')))"
    by blast
  with a b c d show ?thesis
    by metis
qed

subsection \<open>Idempotence\<close>

text \<open>
  Claim C10. Each normalizer is idempotent on strings: it maps every string \<open>s\<close> to a
  string \<open>t\<close> that it maps to itself, so every canonical label and every verbatim
  upper-cased string is a fixed point.
\<close>

theorem normalizers_idempotent:
  "(\<exists>t. standardize_severity (PyStr s) = Some t \<and> standardize_severity (PyStr t) = Some t) \<and>
   (\<exists>t. standardize_occurrence (PyStr s) = Some t \<and> standardize_occurrence (PyStr t) = Some t) \<and>
   (\<exists>t. standardize_priority (PyStr s) = Some t \<and> standardize_priority (PyStr t) = Some t)"
  using severity_idem [of s] occurrence_idem [of s] priority_idem [of s] by blast

section \<open>Properties of the floats\<close>

text \<open>
  The rounding to a double keeps a value between 0 and 128 finite, non-negative and
  within one part in \<open>2\<^sup>5\<^sup>3\<close> of itself, up to half of the smallest subnormal step.
\<close>

lemma pow2_powi: "pow2 e = 2 powi e"
  by (cases "0 \<le> e") (simp_all add: pow2_def power_int_def inverse_eq_divide power_divide)

lemma pow2_pos: "0 < pow2 e"
  by (simp add: pow2_powi)

lemma pow2_mono: "e \<le> e' \<Longrightarrow> pow2 e \<le> pow2 e'"
  by (simp add: pow2_powi power_int_increasing)

lemma pow2_diff: "pow2 (e - e') = pow2 e / pow2 e'"
  by (simp add: pow2_powi power_int_diff)

lemma pow2_nat: "0 \<le> e \<Longrightarrow> pow2 e = of_int (2 ^ nat e)"
  by (simp add: pow2_def)

lemma bit_length_bounds:
  "0 < n \<Longrightarrow> 1 \<le> bit_length n \<and> 2 ^ nat (bit_length n - 1) \<le> n \<and> n < 2 ^ nat (bit_length n)"
proof (induction n rule: bit_length.induct)
  case (1 n)
  show ?case
  proof (cases "n div 2 = 0")
    case True
    with "1.prems" have "n = 1" by presburger
    then show ?thesis
      by (simp add: bit_length.simps [of 1] bit_length.simps [of 0])
  next
    case False
    with "1.prems" have pos: "0 < n div 2" by presburger
    let ?b = "bit_length (n div 2)"
    from "1.IH" "1.prems" pos have b: "1 \<le> ?b" and lo: "2 ^ nat (?b - 1) \<le> n div 2"
      and hi: "n div 2 < 2 ^ nat ?b"
      by simp_all
    have bl: "bit_length n = 1 + ?b"
      using "1.prems" by (simp add: bit_length.simps [of n])
    have e: "nat ?b = Suc (nat (?b - 1))"
      using b by simp
    have "2 * (n div 2) \<le> n" "n < 2 * (n div 2) + 2"
      by presburger+
    moreover have "(2::int) ^ nat ?b = 2 * 2 ^ nat (?b - 1)"
      by (simp add: e)
    moreover have "(2::int) ^ nat (1 + ?b) = 2 * 2 ^ nat ?b"
      using b by (simp add: nat_add_distrib)
    ultimately show ?thesis
      using lo hi b bl by simp
  qed
qed

lemma float_exponent_le:
  assumes "0 < a"
  shows "pow2 (float_exponent a) \<le> a"
proof -
  obtain p q where pq: "quotient_of a = (p, q)"
    by (cases "quotient_of a")
  then have q: "0 < q" and a: "a = of_int p / of_int q"
    by (simp_all add: quotient_of_denom_pos quotient_of_div)
  with assms have p: "0 < p"
    by (simp add: zero_less_divide_iff)
  let ?e0 = "bit_length p - bit_length q"
  show ?thesis
  proof (cases "pow2 ?e0 \<le> a")
    case True
    then show ?thesis
      by (simp add: float_exponent_def pq)
  next
    case False
    from bit_length_bounds [OF p] have bp: "1 \<le> bit_length p" and lo: "2 ^ nat (bit_length p - 1) \<le> p"
      by simp_all
    from bit_length_bounds [OF q] have bq: "1 \<le> bit_length q" and hi: "q < 2 ^ nat (bit_length q)"
      by simp_all
    have "pow2 (bit_length p - 1) = of_int (2 ^ nat (bit_length p - 1))"
      using bp by (simp add: pow2_nat)
    also have "\<dots> \<le> of_int p"
      using lo by (simp only: of_int_le_iff)
    finally have n: "pow2 (bit_length p - 1) \<le> of_int p" .
    have "(of_int q :: rat) \<le> of_int (2 ^ nat (bit_length q))"
      using hi by (simp only: of_int_le_iff less_imp_le)
    also have "\<dots> = pow2 (bit_length q)"
      using bq by (simp add: pow2_nat)
    finally have d: "of_int q \<le> pow2 (bit_length q)" .
    have "pow2 (?e0 - 1) = pow2 (bit_length p - 1) / pow2 (bit_length q)"
      using pow2_diff [of "bit_length p - 1" "bit_length q"] by (simp add: algebra_simps)
    also have "\<dots> \<le> of_int p / of_int q"
      using n d q pow2_pos [of "bit_length p - 1"] by (intro frac_le) simp_all
    finally have "pow2 (?e0 - 1) \<le> a"
      by (simp add: a)
    with False show ?thesis
      by (simp add: float_exponent_def pq)
  qed
qed

lemma round_half_even_near: "\<bar>of_int (round_half_even y) - y\<bar> \<le> 1 / 2"
proof -
  have "of_int \<lfloor>y\<rfloor> \<le> y" "y < of_int \<lfloor>y\<rfloor> + 1"
    by linarith+
  then show ?thesis
    by (auto simp: round_half_even_def Let_def)
qed

lemma round_half_even_nonneg: "0 \<le> y \<Longrightarrow> 0 \<le> round_half_even y"
  by (auto simp: round_half_even_def Let_def)

lemma round_double_near:
  assumes "0 \<le> x" and "x \<le> 128"
  shows "\<exists>y. round_double x = Fin y \<and> 0 \<le> y \<and> \<bar>y - x\<bar> \<le> x / 2 ^ 53 + 1 / 2 ^ 1075"
proof (cases "x = 0")
  case True
  then show ?thesis
    by (simp add: round_double_def)
next
  case False
  with assms have x: "0 < x" by simp
  let ?e = "float_exponent x"
  let ?q = "pow2 (max ?e (- 1022) - 52)"
  let ?n = "round_half_even (x / ?q)"
  have le: "pow2 ?e \<le> x"
    by (rule float_exponent_le [OF x])
  have e: "?e < 1023"
  proof (rule ccontr)
    assume "\<not> ?e < 1023"
    then have "pow2 8 \<le> pow2 ?e"
      by (intro pow2_mono) simp
    with le assms(2) show False
      by (simp add: pow2_def)
  qed
  have q: "0 < ?q"
    by (rule pow2_pos)
  have r: "round_double x = Fin (of_int ?n * ?q)"
    using x e by (simp add: round_double_def Let_def)
  have "\<bar>of_int ?n - x / ?q\<bar> \<le> 1 / 2"
    by (rule round_half_even_near)
  then have "\<bar>of_int ?n - x / ?q\<bar> * ?q \<le> 1 / 2 * ?q"
    using q by (intro mult_right_mono) simp_all
  moreover have "\<bar>of_int ?n - x / ?q\<bar> * ?q = \<bar>of_int ?n * ?q - x\<bar>"
    using q by (simp add: abs_mult [symmetric] field_simps del: abs_mult)
  ultimately have near: "\<bar>of_int ?n * ?q - x\<bar> \<le> ?q / 2"
    by simp
  have half: "?q / 2 \<le> x / 2 ^ 53 + 1 / 2 ^ 1075"
  proof (cases "- 1022 \<le> ?e")
    case True
    then have "?q = pow2 ?e / pow2 52"
      by (simp add: max_def pow2_diff)
    also have "\<dots> \<le> x / pow2 52"
      using le pow2_pos [of 52] by (simp add: divide_right_mono)
    finally have "?q / 2 \<le> x / pow2 52 / 2"
      by simp
    also have "\<dots> = x / 2 ^ 53"
      by (simp add: pow2_def)
    finally show ?thesis
      by simp
  next
    case False
    then have "?q = pow2 (- 1074)"
      by (simp add: max_def)
    then have "?q / 2 = 1 / 2 ^ 1075"
      by (simp add: pow2_def)
    with x show ?thesis
      by simp
  qed
  have "0 \<le> ?n"
    using x q by (intro round_half_even_nonneg) simp
  then have "0 \<le> of_int ?n * ?q"
    using q by simp
  with r near half show ?thesis
    by (intro exI [of _ "of_int ?n * ?q"]) simp
qed

section \<open>Properties of the aggregator\<close>

subsection \<open>Auxiliary facts\<close>

lemma notna_iff: "notna v \<longleftrightarrow> v \<noteq> None"
  by (simp add: notna_def split: option.splits)

lemma pd_eq_iff: "pd_eq a b \<longleftrightarrow> a \<noteq> None \<and> b \<noteq> None \<and> a = b"
  by (auto simp: pd_eq_def split: option.splits)

lemma all_six_notna_iff:
  "all_six_notna =
     (\<lambda>r. user_severity_std r \<noteq> None \<and> ai_severity_std r \<noteq> None \<and>
          user_occurrence_std r \<noteq> None \<and> ai_occurrence_std r \<noteq> None \<and>
          user_priority_std r \<noteq> None \<and> ai_priority_std r \<noteq> None)"
  by (rule ext) (simp only: all_six_notna_def notna_iff)

lemma calculate_match_rates_complete:
  assumes "set required_columns \<subseteq> set (df_columns df)"
  shows "calculate_match_rates df =
     (let metrics_df = map (metrics_of_row (df_columns df)) (df_rows df)
      in Inr (\<lparr>Severity_Match_Rate = py_round2 (severity_match_rate metrics_df),
                Occurrence_Match_Rate = py_round2 (occurrence_match_rate metrics_df),
                Priority_Match_Rate = py_round2 (priority_match_rate metrics_df),
                Overall_Match_Rate = py_round2 (overall_match_rate metrics_df),
                Total_Issues_Analyzed = length (df_rows df),
                Valid_Severity_Comparisons = valid_severity metrics_df,
                Valid_Occurrence_Comparisons = valid_occurrence metrics_df,
                Valid_Priority_Comparisons = valid_priority metrics_df\<rparr>,
              metrics_df))"
proof -
  have "filter (\<lambda>col. col \<notin> set (df_columns df)) required_columns = []"
    using assms by (auto simp: filter_empty_conv)
  then show ?thesis by (simp add: calculate_match_rates_def)
qed

lemma match_rate_zero: "match_rate matches 0 = Fin 0"
  by (simp add: match_rate_def)

lemma py_round2_zero: "py_round2 (Fin 0) = Fin 0"
  by (simp add: py_round2_def float_times_def round_double_def round_half_even_def)

lemma match_rate_near:
  assumes "matches \<le> valid" and "0 < valid"
  shows "\<exists>q r. round_double (of_nat matches / of_nat valid) = Fin q \<and>
           round_double (q * 100) = Fin r \<and>
           match_rate matches valid = Fin r \<and>
           \<bar>r - of_nat matches / of_nat valid * 100\<bar> \<le> 1 / 2 ^ 45"
proof -
  define x :: rat where "x = of_nat matches / of_nat valid"
  have x0: "0 \<le> x" and x1: "x \<le> 1"
    using assms by (simp_all add: x_def)
  have tiny: "(1::rat) / 2 ^ 1075 \<le> 1 / 2 ^ 60"
    by simp
  from round_double_near [of x] x0 x1 obtain q where
    q: "round_double x = Fin q" and q0: "0 \<le> q" and qn: "\<bar>q - x\<bar> \<le> x / 2 ^ 53 + 1 / 2 ^ 1075"
    by auto
  from qn tiny have qn': "\<bar>q - x\<bar> \<le> x / 2 ^ 53 + 1 / 2 ^ 60"
    by linarith
  have "q * 100 \<le> 128"
    using qn' x1 by (simp add: abs_le_iff)
  with round_double_near [of "q * 100"] q0 obtain r where
    r: "round_double (q * 100) = Fin r" and rn: "\<bar>r - q * 100\<bar> \<le> q * 100 / 2 ^ 53 + 1 / 2 ^ 1075"
    by auto
  from rn tiny have rn': "\<bar>r - q * 100\<bar> \<le> q * 100 / 2 ^ 53 + 1 / 2 ^ 60"
    by linarith
  have m: "match_rate matches valid = Fin r"
    using assms(2) q r by (simp add: match_rate_def np_divide_def float_times_def x_def)
  from qn' have q1: "q - x \<le> x / 2 ^ 53 + 1 / 2 ^ 60" and q2: "x - q \<le> x / 2 ^ 53 + 1 / 2 ^ 60"
    by (simp_all only: abs_le_iff minus_diff_eq)
  from rn' have r1: "r - q * 100 \<le> q * 100 / 2 ^ 53 + 1 / 2 ^ 60"
    and r2: "q * 100 - r \<le> q * 100 / 2 ^ 53 + 1 / 2 ^ 60"
    by (simp_all only: abs_le_iff minus_diff_eq)
  have up: "r - x * 100 \<le> 1 / 2 ^ 45"
    using q1 q2 r1 r2 x0 x1 by simp
  have dn: "x * 100 - r \<le> 1 / 2 ^ 45"
    using q1 q2 r1 r2 x0 x1 by simp
  from up dn have "\<bar>r - x * 100\<bar> \<le> 1 / 2 ^ 45"
    by (simp only: abs_le_iff minus_diff_eq)
  with q r m show ?thesis
    unfolding x_def by blast
qed

lemma count_true_eq: "count_true flag m = length (filter flag m)"
  by (simp only: count_true_def)

lemma valid_severity_eq:
  "valid_severity m =
     length (filter (\<lambda>r. user_severity_std r \<noteq> None \<and> ai_severity_std r \<noteq> None) m)"
  by (simp only: valid_severity_def count_true_def notna_iff)

lemma valid_occurrence_eq:
  "valid_occurrence m =
     length (filter (\<lambda>r. user_occurrence_std r \<noteq> None \<and> ai_occurrence_std r \<noteq> None) m)"
  by (simp only: valid_occurrence_def count_true_def notna_iff)

lemma valid_priority_eq:
  "valid_priority m =
     length (filter (\<lambda>r. user_priority_std r \<noteq> None \<and> ai_priority_std r \<noteq> None) m)"
  by (simp only: valid_priority_def count_true_def notna_iff)

lemma valid_all_eq:
  "valid_all m =
     length (filter (\<lambda>r. user_severity_std r \<noteq> None \<and> ai_severity_std r \<noteq> None \<and>
                  user_occurrence_std r \<noteq> None \<and> ai_occurrence_std r \<noteq> None \<and>
                  user_priority_std r \<noteq> None \<and> ai_priority_std r \<noteq> None) m)"
  by (simp only: valid_all_def count_true_def all_six_notna_iff)

lemma filter_length_le:
  "(\<And>r. r \<in> set m \<Longrightarrow> P r \<longrightarrow> Q r) \<Longrightarrow> length (filter P m) \<le> length (filter Q m)"
  by (induction m) auto

lemma rate_facts:
  assumes "M \<le> V"
  shows "(0 < V \<longrightarrow>
            (\<exists>q r. round_double (of_nat M / of_nat V) = Fin q \<and>
                   round_double (q * 100) = Fin r \<and>
                   match_rate M V = Fin r \<and>
                   \<bar>r - of_nat M / of_nat V * 100\<bar> \<le> 1 / 2 ^ 45)) \<and>
         (V = 0 \<longrightarrow> match_rate M V = Fin 0 \<and> py_round2 (match_rate M V) = Fin 0)"
  using match_rate_near [OF assms] by (auto simp: match_rate_zero py_round2_zero)

subsection \<open>Missing columns\<close>

text \<open>
  Claim C2. When the table lacks at least one of the six required rating columns,
  \<^verbatim>\<open>calculate_match_rates\<close> reports exactly the required columns that are absent and
  returns \<^verbatim>\<open>None\<close>: there is no result record and no partial result.
\<close>

theorem missing_columns_abort:
  assumes "\<not> set required_columns \<subseteq> set (df_columns df)"
  shows "\<exists>missing. calculate_match_rates df = Inl missing \<and> missing \<noteq> [] \<and>
           set missing = set required_columns - set (df_columns df)"
proof -
  let ?m = "filter (\<lambda>col. col \<notin> set (df_columns df)) required_columns"
  have "?m \<noteq> []" using assms by (auto simp: filter_empty_conv)
  moreover have "set ?m = set required_columns - set (df_columns df)" by auto
  ultimately show ?thesis by (auto simp add: calculate_match_rates_def Let_def)
qed

theorem missing_columns_abort_witness:
  "\<not> set required_columns \<subseteq> set [''user_severity'', ''ai_severity'', ''user_occurrence'', ''ai_occurrence'', ''user_priority'']
   \<and> calculate_match_rates \<lparr>df_columns = [''user_severity'', ''ai_severity'', ''user_occurrence'', ''ai_occurrence'', ''user_priority''],
        df_rows = [[PyStr ''A - SHOWSTOPPER'', PyStr ''CRITICAL (A)'', PyStr ''ALWAYS'', PyStr ''CERTAIN'', PyStr ''CRITICAL'']]\<rparr> = Inl [''ai_priority'']"
proof -
  let ?df = "\<lparr>df_columns = [''user_severity'', ''ai_severity'', ''user_occurrence'', ''ai_occurrence'', ''user_priority''],
        df_rows = [[PyStr ''A - SHOWSTOPPER'', PyStr ''CRITICAL (A)'', PyStr ''ALWAYS'', PyStr ''CERTAIN'', PyStr ''CRITICAL'']]\<rparr>"
  have h: "\<not> set required_columns \<subseteq> set (df_columns ?df)"
    by (simp add: required_columns_def)
  have e: "set required_columns - set (df_columns ?df) = {''ai_priority''}"
    by (auto simp add: required_columns_def)
  from missing_columns_abort [OF h] obtain missing where
    m: "calculate_match_rates ?df = Inl missing" "missing \<noteq> []" "set missing = set required_columns - set (df_columns ?df)"
    by blast
  have "calculate_match_rates ?df = Inl [''ai_priority'']" by code_simp
  with h show ?thesis by simp
qed

subsection \<open>Match flags and the composite match\<close>

text \<open>
  Claim C1. For a table that has the six columns, every row of the input gives one row of
  \<^verbatim>\<open>metrics_df\<close> whose canonical values are the normalized raw values, and for each of
  severity, occurrence and priority the match flag of the row holds exactly when both
  canonical values are non-null and equal as strings. The flag \<^verbatim>\<open>all_match\<close> holds
  exactly when all six canonical values are non-null and the three flags hold, and the
  denominator of the overall rate is the number of rows whose six canonical values are
  all non-null.
\<close>

theorem match_flags:
  assumes "set required_columns \<subseteq> set (df_columns df)"
  shows "\<exists>res m. calculate_match_rates df = Inr (res, m) \<and> length m = length (df_rows df) \<and>
     (\<forall>i<length (df_rows df).
        user_severity_std (m ! i) = standardize_severity (cell_at (df_columns df) (df_rows df ! i) ''user_severity'') \<and>
        ai_severity_std (m ! i) = standardize_severity (cell_at (df_columns df) (df_rows df ! i) ''ai_severity'') \<and>
        user_occurrence_std (m ! i) = standardize_occurrence (cell_at (df_columns df) (df_rows df ! i) ''user_occurrence'') \<and>
        ai_occurrence_std (m ! i) = standardize_occurrence (cell_at (df_columns df) (df_rows df ! i) ''ai_occurrence'') \<and>
        user_priority_std (m ! i) = standardize_priority (cell_at (df_columns df) (df_rows df ! i) ''user_priority'') \<and>
        ai_priority_std (m ! i) = standardize_priority (cell_at (df_columns df) (df_rows df ! i) ''ai_priority'') \<and>
        (severity_match (m ! i) \<longleftrightarrow>
           user_severity_std (m ! i) \<noteq> None \<and> ai_severity_std (m ! i) \<noteq> None \<and>
           user_severity_std (m ! i) = ai_severity_std (m ! i)) \<and>
        (occurrence_match (m ! i) \<longleftrightarrow>
           user_occurrence_std (m ! i) \<noteq> None \<and> ai_occurrence_std (m ! i) \<noteq> None \<and>
           user_occurrence_std (m ! i) = ai_occurrence_std (m ! i)) \<and>
        (priority_match (m ! i) \<longleftrightarrow>
           user_priority_std (m ! i) \<noteq> None \<and> ai_priority_std (m ! i) \<noteq> None \<and>
           user_priority_std (m ! i) = ai_priority_std (m ! i)) \<and>
        (all_match (m ! i) \<longleftrightarrow>
           user_severity_std (m ! i) \<noteq> None \<and> ai_severity_std (m ! i) \<noteq> None \<and>
           user_occurrence_std (m ! i) \<noteq> None \<and> ai_occurrence_std (m ! i) \<noteq> None \<and>
           user_priority_std (m ! i) \<noteq> None \<and> ai_priority_std (m ! i) \<noteq> None \<and>
           severity_match (m ! i) \<and> occurrence_match (m ! i) \<and> priority_match (m ! i))) \<and>
     Overall_Match_Rate res =
       py_round2 (match_rate (length (filter all_match m))
         (length (filter (\<lambda>r. user_severity_std r \<noteq> None \<and> ai_severity_std r \<noteq> None \<and>
                              user_occurrence_std r \<noteq> None \<and> ai_occurrence_std r \<noteq> None \<and>
                              user_priority_std r \<noteq> None \<and> ai_priority_std r \<noteq> None) m)))"
proof -
  let ?m = "map (metrics_of_row (df_columns df)) (df_rows df)"
  have row: "\<And>r. 
        user_severity_std (metrics_of_row (df_columns df) r) = standardize_severity (cell_at (df_columns df) r ''user_severity'') \<and>
        ai_severity_std (metrics_of_row (df_columns df) r) = standardize_severity (cell_at (df_columns df) r ''ai_severity'') \<and>
        user_occurrence_std (metrics_of_row (df_columns df) r) = standardize_occurrence (cell_at (df_columns df) r ''user_occurrence'') \<and>
        ai_occurrence_std (metrics_of_row (df_columns df) r) = standardize_occurrence (cell_at (df_columns df) r ''ai_occurrence'') \<and>
        user_priority_std (metrics_of_row (df_columns df) r) = standardize_priority (cell_at (df_columns df) r ''user_priority'') \<and>
        ai_priority_std (metrics_of_row (df_columns df) r) = standardize_priority (cell_at (df_columns df) r ''ai_priority'') \<and>
        (severity_match (metrics_of_row (df_columns df) r) \<longleftrightarrow>
           user_severity_std (metrics_of_row (df_columns df) r) \<noteq> None \<and> ai_severity_std (metrics_of_row (df_columns df) r) \<noteq> None \<and>
           user_severity_std (metrics_of_row (df_columns df) r) = ai_severity_std (metrics_of_row (df_columns df) r)) \<and>
        (occurrence_match (metrics_of_row (df_columns df) r) \<longleftrightarrow>
           user_occurrence_std (metrics_of_row (df_columns df) r) \<noteq> None \<and> ai_occurrence_std (metrics_of_row (df_columns df) r) \<noteq> None \<and>
           user_occurrence_std (metrics_of_row (df_columns df) r) = ai_occurrence_std (metrics_of_row (df_columns df) r)) \<and>
        (priority_match (metrics_of_row (df_columns df) r) \<longleftrightarrow>
           user_priority_std (metrics_of_row (df_columns df) r) \<noteq> None \<and> ai_priority_std (metrics_of_row (df_columns df) r) \<noteq> None \<and>
           user_priority_std (metrics_of_row (df_columns df) r) = ai_priority_std (metrics_of_row (df_columns df) r)) \<and>
        (all_match (metrics_of_row (df_columns df) r) \<longleftrightarrow>
           user_severity_std (metrics_of_row (df_columns df) r) \<noteq> None \<and> ai_severity_std (metrics_of_row (df_columns df) r) \<noteq> None \<and>
           user_occurrence_std (metrics_of_row (df_columns df) r) \<noteq> None \<and> ai_occurrence_std (metrics_of_row (df_columns df) r) \<noteq> None \<and>
           user_priority_std (metrics_of_row (df_columns df) r) \<noteq> None \<and> ai_priority_std (metrics_of_row (df_columns df) r) \<noteq> None \<and>
           severity_match (metrics_of_row (df_columns df) r) \<and> occurrence_match (metrics_of_row (df_columns df) r) \<and> priority_match (metrics_of_row (df_columns df) r))"
    by (simp add: metrics_of_row_def Let_def pd_eq_iff) blast
  have ov: "overall_match_rate ?m = match_rate (length (filter all_match ?m))
         (length (filter (\<lambda>r. user_severity_std r \<noteq> None \<and> ai_severity_std r \<noteq> None \<and>
                              user_occurrence_std r \<noteq> None \<and> ai_occurrence_std r \<noteq> None \<and>
                              user_priority_std r \<noteq> None \<and> ai_priority_std r \<noteq> None) ?m))"
    by (simp only: overall_match_rate_def valid_all_def count_true_def all_six_notna_iff)
  show ?thesis
    unfolding calculate_match_rates_complete [OF assms] Let_def
    apply (intro exI conjI)
      apply (rule refl)
     apply simp
    using row apply simp
    using ov apply simp
    done
qed

theorem match_flags_witness:
  "set required_columns \<subseteq>
     set (df_columns \<lparr>df_columns = [''user_severity'', ''ai_severity'', ''user_occurrence'',
                                    ''ai_occurrence'', ''user_priority'', ''ai_priority''],
                      df_rows = [[PyStr ''A - Showstopper'', PyStr ''Critical (A)'', PyStr ''Always'',
                                  PyStr ''Certain'', PyStr ''Critical'', PyStr ''Urgent''],
                                 [PyStr ''B - Major'', PyNone, PyStr ''Once'',
                                  PyStr ''Rare'', PyStr ''Major'', PyStr ''Low'']]\<rparr>) \<and>
   (\<exists>res m.
      calculate_match_rates
        \<lparr>df_columns = [''user_severity'', ''ai_severity'', ''user_occurrence'',
                       ''ai_occurrence'', ''user_priority'', ''ai_priority''],
         df_rows = [[PyStr ''A - Showstopper'', PyStr ''Critical (A)'', PyStr ''Always'',
                     PyStr ''Certain'', PyStr ''Critical'', PyStr ''Urgent''],
                    [PyStr ''B - Major'', PyNone, PyStr ''Once'',
                     PyStr ''Rare'', PyStr ''Major'', PyStr ''Low'']]\<rparr> = Inr (res, m) \<and>
      length m = 2 \<and>
      severity_match (m ! 0) \<and> occurrence_match (m ! 0) \<and> priority_match (m ! 0) \<and>
      all_match (m ! 0) \<and>
      \<not> severity_match (m ! 1) \<and> occurrence_match (m ! 1) \<and> \<not> priority_match (m ! 1) \<and>
      \<not> all_match (m ! 1))"
proof -
  let ?cols = "[''user_severity'', ''ai_severity'', ''user_occurrence'',
                ''ai_occurrence'', ''user_priority'', ''ai_priority'']"
  let ?r0 = "[PyStr ''A - Showstopper'', PyStr ''Critical (A)'', PyStr ''Always'',
              PyStr ''Certain'', PyStr ''Critical'', PyStr ''Urgent'']"
  let ?r1 = "[PyStr ''B - Major'', PyNone, PyStr ''Once'',
              PyStr ''Rare'', PyStr ''Major'', PyStr ''Low'']"
  let ?T = "\<lparr>df_columns = ?cols, df_rows = [?r0, ?r1]\<rparr>"
  have h: "set required_columns \<subseteq> set (df_columns ?T)"
    by (simp add: required_columns_def)
  have e0:
    "standardize_severity (cell_at ?cols ?r0 ''user_severity'') = Some ''A - SHOWSTOPPER''"
    "standardize_severity (cell_at ?cols ?r0 ''ai_severity'') = Some ''A - SHOWSTOPPER''"
    "standardize_occurrence (cell_at ?cols ?r0 ''user_occurrence'') = Some ''CERTAIN''"
    "standardize_occurrence (cell_at ?cols ?r0 ''ai_occurrence'') = Some ''CERTAIN''"
    "standardize_priority (cell_at ?cols ?r0 ''user_priority'') = Some ''CRITICAL''"
    "standardize_priority (cell_at ?cols ?r0 ''ai_priority'') = Some ''CRITICAL''"
    by code_simp+
  have e1:
    "standardize_severity (cell_at ?cols ?r1 ''user_severity'') = Some ''B - MAJOR''"
    "standardize_severity (cell_at ?cols ?r1 ''ai_severity'') = None"
    "standardize_occurrence (cell_at ?cols ?r1 ''user_occurrence'') = Some ''RARE''"
    "standardize_occurrence (cell_at ?cols ?r1 ''ai_occurrence'') = Some ''RARE''"
    "standardize_priority (cell_at ?cols ?r1 ''user_priority'') = Some ''MAJOR''"
    "standardize_priority (cell_at ?cols ?r1 ''ai_priority'') = Some ''MINOR''"
    by code_simp+
  from match_flags [OF h] obtain res m where
    c: "calculate_match_rates ?T = Inr (res, m)" and l: "length m = length (df_rows ?T)" and
    rows: "\<forall>i<length (df_rows ?T).
        user_severity_std (m ! i) = standardize_severity (cell_at (df_columns ?T) (df_rows ?T ! i) ''user_severity'') \<and>
        ai_severity_std (m ! i) = standardize_severity (cell_at (df_columns ?T) (df_rows ?T ! i) ''ai_severity'') \<and>
        user_occurrence_std (m ! i) = standardize_occurrence (cell_at (df_columns ?T) (df_rows ?T ! i) ''user_occurrence'') \<and>
        ai_occurrence_std (m ! i) = standardize_occurrence (cell_at (df_columns ?T) (df_rows ?T ! i) ''ai_occurrence'') \<and>
        user_priority_std (m ! i) = standardize_priority (cell_at (df_columns ?T) (df_rows ?T ! i) ''user_priority'') \<and>
        ai_priority_std (m ! i) = standardize_priority (cell_at (df_columns ?T) (df_rows ?T ! i) ''ai_priority'') \<and>
        (severity_match (m ! i) \<longleftrightarrow>
           user_severity_std (m ! i) \<noteq> None \<and> ai_severity_std (m ! i) \<noteq> None \<and>
           user_severity_std (m ! i) = ai_severity_std (m ! i)) \<and>
        (occurrence_match (m ! i) \<longleftrightarrow>
           user_occurrence_std (m ! i) \<noteq> None \<and> ai_occurrence_std (m ! i) \<noteq> None \<and>
           user_occurrence_std (m ! i) = ai_occurrence_std (m ! i)) \<and>
        (priority_match (m ! i) \<longleftrightarrow>
           user_priority_std (m ! i) \<noteq> None \<and> ai_priority_std (m ! i) \<noteq> None \<and>
           user_priority_std (m ! i) = ai_priority_std (m ! i)) \<and>
        (all_match (m ! i) \<longleftrightarrow>
           user_severity_std (m ! i) \<noteq> None \<and> ai_severity_std (m ! i) \<noteq> None \<and>
           user_occurrence_std (m ! i) \<noteq> None \<and> ai_occurrence_std (m ! i) \<noteq> None \<and>
           user_priority_std (m ! i) \<noteq> None \<and> ai_priority_std (m ! i) \<noteq> None \<and>
           severity_match (m ! i) \<and> occurrence_match (m ! i) \<and> priority_match (m ! i))"
    by blast
  from rows [rule_format, of 0] e0
  have f0: "severity_match (m ! 0) \<and> occurrence_match (m ! 0) \<and> priority_match (m ! 0) \<and> all_match (m ! 0)"
    by simp
  from rows [rule_format, of 1] e1
  have f1: "\<not> severity_match (m ! 1) \<and> occurrence_match (m ! 1) \<and> \<not> priority_match (m ! 1) \<and> \<not> all_match (m ! 1)"
    by simp
  from l have "length m = 2" by simp
  with h c f0 f1 show ?thesis by blast
qed

subsection \<open>Rates and the zero convention\<close>

text \<open>
  Claim C7. For each attribute, let \<open>M\<close> be the number of rows whose match flag holds
  and \<open>V\<close> the number of rows whose two canonical values are both non-null; \<open>V\<close> is
  the reported count of valid comparisons. When \<open>V\<close> is positive the match rate is the
  double that the code computes: the quotient \<open>M / V\<close> rounded to a double, times 100,
  rounded to a double again. It is finite and differs from the exact value
  \<open>M / V \<times> 100\<close> by at most \<open>2\<^sup>-\<^sup>4\<^sup>5\<close>. When \<open>V\<close> is 0 the rate is exactly 0 and so is
  the reported rate: no division takes place, so the rate is neither not-a-number nor
  an error. The same holds for the overall rate, with the rows whose three flags hold
  and the rows whose six canonical values are all non-null. The reported rate is the
  rate rounded to two decimals.
\<close>

theorem match_rate_convention:
  assumes "set required_columns \<subseteq> set (df_columns df)"
  shows "\<exists>res m. calculate_match_rates df = Inr (res, m) \<and>
     Severity_Match_Rate res = py_round2 (severity_match_rate m) \<and>
     Occurrence_Match_Rate res = py_round2 (occurrence_match_rate m) \<and>
     Priority_Match_Rate res = py_round2 (priority_match_rate m) \<and>
     Overall_Match_Rate res = py_round2 (overall_match_rate m) \<and>
     (let M = length (filter severity_match m);
          V = length (filter (\<lambda>r. user_severity_std r \<noteq> None \<and> ai_severity_std r \<noteq> None) m)
      in Valid_Severity_Comparisons res = V \<and>
         (0 < V \<longrightarrow>
            (\<exists>q r. round_double (of_nat M / of_nat V) = Fin q \<and>
                   round_double (q * 100) = Fin r \<and>
                   severity_match_rate m = Fin r \<and>
                   \<bar>r - of_nat M / of_nat V * 100\<bar> \<le> 1 / 2 ^ 45)) \<and>
         (V = 0 \<longrightarrow> severity_match_rate m = Fin 0 \<and> Severity_Match_Rate res = Fin 0)) \<and>
     (let M = length (filter occurrence_match m);
          V = length (filter (\<lambda>r. user_occurrence_std r \<noteq> None \<and> ai_occurrence_std r \<noteq> None) m)
      in Valid_Occurrence_Comparisons res = V \<and>
         (0 < V \<longrightarrow>
            (\<exists>q r. round_double (of_nat M / of_nat V) = Fin q \<and>
                   round_double (q * 100) = Fin r \<and>
                   occurrence_match_rate m = Fin r \<and>
                   \<bar>r - of_nat M / of_nat V * 100\<bar> \<le> 1 / 2 ^ 45)) \<and>
         (V = 0 \<longrightarrow> occurrence_match_rate m = Fin 0 \<and> Occurrence_Match_Rate res = Fin 0)) \<and>
     (let M = length (filter priority_match m);
          V = length (filter (\<lambda>r. user_priority_std r \<noteq> None \<and> ai_priority_std r \<noteq> None) m)
      in Valid_Priority_Comparisons res = V \<and>
         (0 < V \<longrightarrow>
            (\<exists>q r. round_double (of_nat M / of_nat V) = Fin q \<and>
                   round_double (q * 100) = Fin r \<and>
                   priority_match_rate m = Fin r \<and>
                   \<bar>r - of_nat M / of_nat V * 100\<bar> \<le> 1 / 2 ^ 45)) \<and>
         (V = 0 \<longrightarrow> priority_match_rate m = Fin 0 \<and> Priority_Match_Rate res = Fin 0)) \<and>
     (let M = length (filter all_match m);
          V = length (filter (\<lambda>r. user_severity_std r \<noteq> None \<and> ai_severity_std r \<noteq> None \<and>
                  user_occurrence_std r \<noteq> None \<and> ai_occurrence_std r \<noteq> None \<and>
                  user_priority_std r \<noteq> None \<and> ai_priority_std r \<noteq> None) m)
      in (0 < V \<longrightarrow>
            (\<exists>q r. round_double (of_nat M / of_nat V) = Fin q \<and>
                   round_double (q * 100) = Fin r \<and>
                   overall_match_rate m = Fin r \<and>
                   \<bar>r - of_nat M / of_nat V * 100\<bar> \<le> 1 / 2 ^ 45)) \<and>
         (V = 0 \<longrightarrow> overall_match_rate m = Fin 0 \<and> Overall_Match_Rate res = Fin 0))"
proof -
  let ?m = "map (metrics_of_row (df_columns df)) (df_rows df)"
  let ?res = "\<lparr>Severity_Match_Rate = py_round2 (severity_match_rate ?m),
                Occurrence_Match_Rate = py_round2 (occurrence_match_rate ?m),
                Priority_Match_Rate = py_round2 (priority_match_rate ?m),
                Overall_Match_Rate = py_round2 (overall_match_rate ?m),
                Total_Issues_Analyzed = length (df_rows df),
                Valid_Severity_Comparisons = valid_severity ?m,
                Valid_Occurrence_Comparisons = valid_occurrence ?m,
                Valid_Priority_Comparisons = valid_priority ?m\<rparr>"
  have c: "calculate_match_rates df = Inr (?res, ?m)"
    using calculate_match_rates_complete [OF assms] by (simp only: Let_def)
  have row: "severity_match r \<longrightarrow> user_severity_std r \<noteq> None \<and> ai_severity_std r \<noteq> None"
    "occurrence_match r \<longrightarrow> user_occurrence_std r \<noteq> None \<and> ai_occurrence_std r \<noteq> None"
    "priority_match r \<longrightarrow> user_priority_std r \<noteq> None \<and> ai_priority_std r \<noteq> None"
    "all_match r \<longrightarrow> user_severity_std r \<noteq> None \<and> ai_severity_std r \<noteq> None \<and>
                  user_occurrence_std r \<noteq> None \<and> ai_occurrence_std r \<noteq> None \<and>
                  user_priority_std r \<noteq> None \<and> ai_priority_std r \<noteq> None"
    if "r \<in> set ?m" for r
    using that by (auto simp: metrics_of_row_def Let_def pd_eq_iff)
  have sel: "Severity_Match_Rate ?res = py_round2 (severity_match_rate ?m)"
    "Occurrence_Match_Rate ?res = py_round2 (occurrence_match_rate ?m)"
    "Priority_Match_Rate ?res = py_round2 (priority_match_rate ?m)"
    "Overall_Match_Rate ?res = py_round2 (overall_match_rate ?m)"
    "Valid_Severity_Comparisons ?res = valid_severity ?m"
    "Valid_Occurrence_Comparisons ?res = valid_occurrence ?m"
    "Valid_Priority_Comparisons ?res = valid_priority ?m"
    by simp_all
  have le_severity: "length (filter severity_match ?m)
      \<le> length (filter (\<lambda>r. user_severity_std r \<noteq> None \<and> ai_severity_std r \<noteq> None) ?m)"
    by (rule filter_length_le) (rule row(1))
  have severity: "(let M = length (filter severity_match ?m);
          V = length (filter (\<lambda>r. user_severity_std r \<noteq> None \<and> ai_severity_std r \<noteq> None) ?m)
      in Valid_Severity_Comparisons ?res = V \<and>
         (0 < V \<longrightarrow>
            (\<exists>q r. round_double (of_nat M / of_nat V) = Fin q \<and>
                   round_double (q * 100) = Fin r \<and>
                   severity_match_rate ?m = Fin r \<and>
                   \<bar>r - of_nat M / of_nat V * 100\<bar> \<le> 1 / 2 ^ 45)) \<and>
         (V = 0 \<longrightarrow> severity_match_rate ?m = Fin 0 \<and> Severity_Match_Rate ?res = Fin 0))"
    unfolding Let_def sel unfolding severity_match_rate_def count_true_eq valid_severity_eq
    by (intro conjI [OF refl]) (rule rate_facts [OF le_severity])
  have le_occurrence: "length (filter occurrence_match ?m)
      \<le> length (filter (\<lambda>r. user_occurrence_std r \<noteq> None \<and> ai_occurrence_std r \<noteq> None) ?m)"
    by (rule filter_length_le) (rule row(2))
  have occurrence: "(let M = length (filter occurrence_match ?m);
          V = length (filter (\<lambda>r. user_occurrence_std r \<noteq> None \<and> ai_occurrence_std r \<noteq> None) ?m)
      in Valid_Occurrence_Comparisons ?res = V \<and>
         (0 < V \<longrightarrow>
            (\<exists>q r. round_double (of_nat M / of_nat V) = Fin q \<and>
                   round_double (q * 100) = Fin r \<and>
                   occurrence_match_rate ?m = Fin r \<and>
                   \<bar>r - of_nat M / of_nat V * 100\<bar> \<le> 1 / 2 ^ 45)) \<and>
         (V = 0 \<longrightarrow> occurrence_match_rate ?m = Fin 0 \<and> Occurrence_Match_Rate ?res = Fin 0))"
    unfolding Let_def sel unfolding occurrence_match_rate_def count_true_eq valid_occurrence_eq
    by (intro conjI [OF refl]) (rule rate_facts [OF le_occurrence])
  have le_priority: "length (filter priority_match ?m)
      \<le> length (filter (\<lambda>r. user_priority_std r \<noteq> None \<and> ai_priority_std r \<noteq> None) ?m)"
    by (rule filter_length_le) (rule row(3))
  have priority: "(let M = length (filter priority_match ?m);
          V = length (filter (\<lambda>r. user_priority_std r \<noteq> None \<and> ai_priority_std r \<noteq> None) ?m)
      in Valid_Priority_Comparisons ?res = V \<and>
         (0 < V \<longrightarrow>
            (\<exists>q r. round_double (of_nat M / of_nat V) = Fin q \<and>
                   round_double (q * 100) = Fin r \<and>
                   priority_match_rate ?m = Fin r \<and>
                   \<bar>r - of_nat M / of_nat V * 100\<bar> \<le> 1 / 2 ^ 45)) \<and>
         (V = 0 \<longrightarrow> priority_match_rate ?m = Fin 0 \<and> Priority_Match_Rate ?res = Fin 0))"
    unfolding Let_def sel unfolding priority_match_rate_def count_true_eq valid_priority_eq
    by (intro conjI [OF refl]) (rule rate_facts [OF le_priority])
  have le_overall: "length (filter all_match ?m)
      \<le> length (filter (\<lambda>r. user_severity_std r \<noteq> None \<and> ai_severity_std r \<noteq> None \<and>
                  user_occurrence_std r \<noteq> None \<and> ai_occurrence_std r \<noteq> None \<and>
                  user_priority_std r \<noteq> None \<and> ai_priority_std r \<noteq> None) ?m)"
    by (rule filter_length_le) (rule row(4))
  have overall: "(let M = length (filter all_match ?m);
          V = length (filter (\<lambda>r. user_severity_std r \<noteq> None \<and> ai_severity_std r \<noteq> None \<and>
                  user_occurrence_std r \<noteq> None \<and> ai_occurrence_std r \<noteq> None \<and>
                  user_priority_std r \<noteq> None \<and> ai_priority_std r \<noteq> None) ?m)
      in (0 < V \<longrightarrow>
            (\<exists>q r. round_double (of_nat M / of_nat V) = Fin q \<and>
                   round_double (q * 100) = Fin r \<and>
                   overall_match_rate ?m = Fin r \<and>
                   \<bar>r - of_nat M / of_nat V * 100\<bar> \<le> 1 / 2 ^ 45)) \<and>
         (V = 0 \<longrightarrow> overall_match_rate ?m = Fin 0 \<and> Overall_Match_Rate ?res = Fin 0))"
    unfolding Let_def sel unfolding overall_match_rate_def count_true_eq valid_all_eq
    by (rule rate_facts [OF le_overall])
  from c sel(1-4) severity occurrence priority overall show ?thesis
    by (intro exI [of _ ?res] exI [of _ ?m] conjI)
qed

theorem match_rate_convention_witness:
  "set required_columns \<subseteq>
     set (df_columns \<lparr>df_columns = [''user_severity'', ''ai_severity'', ''user_occurrence'',
                                    ''ai_occurrence'', ''user_priority'', ''ai_priority''],
                      df_rows = [[PyStr ''A - Showstopper'', PyStr ''Critical (A)'', PyNone,
                                  PyStr ''Certain'', PyStr ''Critical'', PyStr ''Urgent''],
                                 [PyStr ''B - Major'', PyStr ''Minor (C)'', PyNone,
                                  PyStr ''Rare'', PyStr ''Major'', PyStr ''High''],
                                 [PyStr ''C - Minor'', PyStr ''Major (B)'', PyNone,
                                  PyStr ''Rare'', PyStr ''Minor'', PyStr ''Low'']]\<rparr>) \<and>
   (\<exists>res m.
      calculate_match_rates
        \<lparr>df_columns = [''user_severity'', ''ai_severity'', ''user_occurrence'',
                       ''ai_occurrence'', ''user_priority'', ''ai_priority''],
         df_rows = [[PyStr ''A - Showstopper'', PyStr ''Critical (A)'', PyNone,
                     PyStr ''Certain'', PyStr ''Critical'', PyStr ''Urgent''],
                    [PyStr ''B - Major'', PyStr ''Minor (C)'', PyNone,
                     PyStr ''Rare'', PyStr ''Major'', PyStr ''High''],
                    [PyStr ''C - Minor'', PyStr ''Major (B)'', PyNone,
                     PyStr ''Rare'', PyStr ''Minor'', PyStr ''Low'']]\<rparr> = Inr (res, m) \<and>
      length (filter severity_match m) = 1 \<and>
      Valid_Severity_Comparisons res = 3 \<and>
      severity_match_rate m = Fin (2345624805922133 / 70368744177664) \<and>
      \<bar>2345624805922133 / 70368744177664 - 1 / 3 * 100 :: rat\<bar> \<le> 1 / 2 ^ 45 \<and>
      Severity_Match_Rate res = Fin (2345390243441541 / 70368744177664) \<and>
      Valid_Occurrence_Comparisons res = 0 \<and> occurrence_match_rate m = Fin 0 \<and>
      Occurrence_Match_Rate res = Fin 0 \<and>
      overall_match_rate m = Fin 0 \<and> Overall_Match_Rate res = Fin 0)"
proof -
  let ?T = "\<lparr>df_columns = [''user_severity'', ''ai_severity'', ''user_occurrence'',
                       ''ai_occurrence'', ''user_priority'', ''ai_priority''],
         df_rows = [[PyStr ''A - Showstopper'', PyStr ''Critical (A)'', PyNone,
                     PyStr ''Certain'', PyStr ''Critical'', PyStr ''Urgent''],
                    [PyStr ''B - Major'', PyStr ''Minor (C)'', PyNone,
                     PyStr ''Rare'', PyStr ''Major'', PyStr ''High''],
                    [PyStr ''C - Minor'', PyStr ''Major (B)'', PyNone,
                     PyStr ''Rare'', PyStr ''Minor'', PyStr ''Low'']]\<rparr>"
  have h: "set required_columns \<subseteq> set (df_columns ?T)"
    by (simp add: required_columns_def)
  have ev: "case calculate_match_rates ?T of
              Inl _ \<Rightarrow> False
            | Inr (res, m) \<Rightarrow>
                length (filter severity_match m) = 1 \<and>
                length (filter (\<lambda>r. user_severity_std r \<noteq> None \<and> ai_severity_std r \<noteq> None) m) = 3 \<and>
                length (filter (\<lambda>r. user_occurrence_std r \<noteq> None \<and> ai_occurrence_std r \<noteq> None) m) = 0 \<and>
                length (filter (\<lambda>r. user_severity_std r \<noteq> None \<and> ai_severity_std r \<noteq> None \<and>
                  user_occurrence_std r \<noteq> None \<and> ai_occurrence_std r \<noteq> None \<and>
                  user_priority_std r \<noteq> None \<and> ai_priority_std r \<noteq> None) m) = 0"
    by code_simp
  from match_rate_convention [OF h] obtain res m where
    c: "calculate_match_rates ?T = Inr (res, m)" and
    r: "Severity_Match_Rate res = py_round2 (severity_match_rate m)" and
    s: "(let M = length (filter severity_match m);
          V = length (filter (\<lambda>r. user_severity_std r \<noteq> None \<and> ai_severity_std r \<noteq> None) m)
      in Valid_Severity_Comparisons res = V \<and>
         (0 < V \<longrightarrow>
            (\<exists>q r. round_double (of_nat M / of_nat V) = Fin q \<and>
                   round_double (q * 100) = Fin r \<and>
                   severity_match_rate m = Fin r \<and>
                   \<bar>r - of_nat M / of_nat V * 100\<bar> \<le> 1 / 2 ^ 45)) \<and>
         (V = 0 \<longrightarrow> severity_match_rate m = Fin 0 \<and> Severity_Match_Rate res = Fin 0))" and
    oc: "(let M = length (filter occurrence_match m);
          V = length (filter (\<lambda>r. user_occurrence_std r \<noteq> None \<and> ai_occurrence_std r \<noteq> None) m)
      in Valid_Occurrence_Comparisons res = V \<and>
         (0 < V \<longrightarrow>
            (\<exists>q r. round_double (of_nat M / of_nat V) = Fin q \<and>
                   round_double (q * 100) = Fin r \<and>
                   occurrence_match_rate m = Fin r \<and>
                   \<bar>r - of_nat M / of_nat V * 100\<bar> \<le> 1 / 2 ^ 45)) \<and>
         (V = 0 \<longrightarrow> occurrence_match_rate m = Fin 0 \<and> Occurrence_Match_Rate res = Fin 0))" and
    a: "(let M = length (filter all_match m);
          V = length (filter (\<lambda>r. user_severity_std r \<noteq> None \<and> ai_severity_std r \<noteq> None \<and>
                  user_occurrence_std r \<noteq> None \<and> ai_occurrence_std r \<noteq> None \<and>
                  user_priority_std r \<noteq> None \<and> ai_priority_std r \<noteq> None) m)
      in (0 < V \<longrightarrow>
            (\<exists>q r. round_double (of_nat M / of_nat V) = Fin q \<and>
                   round_double (q * 100) = Fin r \<and>
                   overall_match_rate m = Fin r \<and>
                   \<bar>r - of_nat M / of_nat V * 100\<bar> \<le> 1 / 2 ^ 45)) \<and>
         (V = 0 \<longrightarrow> overall_match_rate m = Fin 0 \<and> Overall_Match_Rate res = Fin 0))"
    by (elim exE conjE) (rule that, assumption+)
  from ev c have v: "length (filter severity_match m) = 1"
    "length (filter (\<lambda>r. user_severity_std r \<noteq> None \<and> ai_severity_std r \<noteq> None) m) = 3"
    "length (filter (\<lambda>r. user_occurrence_std r \<noteq> None \<and> ai_occurrence_std r \<noteq> None) m) = 0"
    "length (filter (\<lambda>r. user_severity_std r \<noteq> None \<and> ai_severity_std r \<noteq> None \<and>
                  user_occurrence_std r \<noteq> None \<and> ai_occurrence_std r \<noteq> None \<and>
                  user_priority_std r \<noteq> None \<and> ai_priority_std r \<noteq> None) m) = 0"
    by (simp_all only: sum.case prod.case simp_thms)
  from s have vs: "Valid_Severity_Comparisons res = 3"
    unfolding Let_def v by simp
  from s have "\<exists>q r. round_double (1 / 3) = Fin q \<and> round_double (q * 100) = Fin r \<and>
      severity_match_rate m = Fin r \<and> \<bar>r - 1 / 3 * 100\<bar> \<le> 1 / 2 ^ 45"
    unfolding Let_def v by simp
  then obtain q r' where
    q: "round_double (1 / 3) = Fin q" and
    r': "round_double (q * 100) = Fin r'" and
    sr: "severity_match_rate m = Fin r'" and
    near: "\<bar>r' - 1 / 3 * 100\<bar> \<le> 1 / 2 ^ 45"
    by (elim exE conjE) (rule that, assumption+)
  have q1: "round_double (1 / 3) = Fin (6004799503160661 / 18014398509481984)"
    by code_simp
  have r1: "round_double (6004799503160661 / 18014398509481984 * 100)
              = Fin (2345624805922133 / 70368744177664)"
    by code_simp
  from q q1 have "q = 6004799503160661 / 18014398509481984" by simp
  with r' r1 have re: "r' = 2345624805922133 / 70368744177664" by simp
  have rr: "py_round2 (Fin (2345624805922133 / 70368744177664))
              = Fin (2345390243441541 / 70368744177664)"
    by code_simp
  from sr re have sr': "severity_match_rate m = Fin (2345624805922133 / 70368744177664)"
    by simp
  from near re have near': "\<bar>2345624805922133 / 70368744177664 - 1 / 3 * 100 :: rat\<bar> \<le> 1 / 2 ^ 45"
    by simp
  from r sr' rr have rep: "Severity_Match_Rate res = Fin (2345390243441541 / 70368744177664)"
    by simp
  from oc have o0: "Valid_Occurrence_Comparisons res = 0" "occurrence_match_rate m = Fin 0"
    "Occurrence_Match_Rate res = Fin 0"
    unfolding Let_def v by simp_all
  from a have a0: "overall_match_rate m = Fin 0" "Overall_Match_Rate res = Fin 0"
    unfolding Let_def v by simp_all
  from h c v(1) vs sr' near' rep o0 a0 show ?thesis
    by (intro conjI exI [of _ res] exI [of _ m])
qed

subsection \<open>A row with a missing automated severity\<close>

text \<open>
  The count of valid severity comparisons leaves out exactly the rows in which one of
  the two severity cells is \<^verbatim>\<open>None\<close>. A cell that is \<^verbatim>\<open>nan\<close> is normalized to the
  string \<^verbatim>\<open>NAN\<close> and its row is counted.
\<close>

lemma valid_severity_counts_not_None:
  "valid_severity (map (metrics_of_row cols) rows) =
     length (filter (\<lambda>r. cell_at cols r ''user_severity'' \<noteq> PyNone \<and>
                         cell_at cols r ''ai_severity'' \<noteq> PyNone) rows)"
proof -
  have "\<And>r. (notna (user_severity_std (metrics_of_row cols r)) \<and> notna (ai_severity_std (metrics_of_row cols r)))
      = (cell_at cols r ''user_severity'' \<noteq> PyNone \<and> cell_at cols r ''ai_severity'' \<noteq> PyNone)"
    using standardize_None_iff by (simp add: metrics_of_row_def Let_def notna_iff)
  then show ?thesis
    by (simp add: valid_severity_def count_true_def filter_map comp_def)
qed

text \<open>
  Claim C6. A row whose automated severity is null should be left out of the count of
  valid severity comparisons and of the composite denominator, and be counted in the
  other two counts and in the total. In the table below the second row has the
  automated severity that \<^verbatim>\<open>pd.read_csv\<close> gives for an empty field, \<^verbatim>\<open>nan\<close>. The
  test \<^verbatim>\<open>severity is None\<close> does not hold for it, the canonical value is the string
  \<^verbatim>\<open>NAN\<close>, and the row is counted as a valid severity comparison and in the composite
  denominator: both are 2, not 1, and the severity and overall rates are 50, not 100.
\<close>

theorem nan_severity_counted_as_valid:
  "(case calculate_match_rates
          \<lparr>df_columns = [''user_severity'', ''ai_severity'', ''user_occurrence'',
                         ''ai_occurrence'', ''user_priority'', ''ai_priority''],
           df_rows = [[PyStr ''A - Showstopper'', PyStr ''Critical (A)'', PyStr ''Always'',
                       PyStr ''Certain'', PyStr ''Critical'', PyStr ''Urgent''],
                      [PyStr ''B - Major'', PyNaN, PyStr ''Once'',
                       PyStr ''Rare'', PyStr ''Major'', PyStr ''High'']]\<rparr> of
      Inl _ \<Rightarrow> False
    | Inr (res, m) \<Rightarrow>
        ai_severity (m ! 1) = PyNaN \<and> ai_severity_std (m ! 1) = Some ''NAN'' \<and>
        Total_Issues_Analyzed res = 2 \<and>
        Valid_Severity_Comparisons res = 2 \<and> valid_all m = 2 \<and>
        Valid_Occurrence_Comparisons res = 2 \<and> Valid_Priority_Comparisons res = 2 \<and>
        Severity_Match_Rate res = Fin 50 \<and> Overall_Match_Rate res = Fin 50)"
  by code_simp

text \<open>The same table with \<^verbatim>\<open>None\<close> in that cell: the row is left out of both counts.\<close>

lemma none_severity_excluded:
  "(case calculate_match_rates
          \<lparr>df_columns = [''user_severity'', ''ai_severity'', ''user_occurrence'',
                         ''ai_occurrence'', ''user_priority'', ''ai_priority''],
           df_rows = [[PyStr ''A - Showstopper'', PyStr ''Critical (A)'', PyStr ''Always'',
                       PyStr ''Certain'', PyStr ''Critical'', PyStr ''Urgent''],
                      [PyStr ''B - Major'', PyNone, PyStr ''Once'',
                       PyStr ''Rare'', PyStr ''Major'', PyStr ''High'']]\<rparr> of
      Inl _ \<Rightarrow> False
    | Inr (res, m) \<Rightarrow>
        Total_Issues_Analyzed res = 2 \<and>
        Valid_Severity_Comparisons res = 1 \<and> valid_all m = 1 \<and>
        Valid_Occurrence_Comparisons res = 2 \<and> Valid_Priority_Comparisons res = 2 \<and>
        Severity_Match_Rate res = Fin 100 \<and> Overall_Match_Rate res = Fin 100)"
  by code_simp

section \<open>Properties of the visualization\<close>

subsection \<open>Auxiliary facts\<close>


















lemma str_nat_nonempty: "str_nat n \<noteq> []"
  by (subst str_nat.simps) simp

lemma digit_char_inj: "a < 10 \<Longrightarrow> b < 10 \<Longrightarrow> char_of (48 + a :: nat) = char_of (48 + b) \<Longrightarrow> a = b"
proof -
  assume a: "a < 10" and b: "b < 10" and e: "char_of (48 + a :: nat) = char_of (48 + b)"
  from e have "of_char (char_of (48 + a :: nat)) = (of_char (char_of (48 + b)) :: nat)"
    by simp
  with a b show "a = b"
    by simp
qed

lemma str_nat_inj: "str_nat n = str_nat m \<Longrightarrow> n = m"
proof (induction n arbitrary: m rule: less_induct)
  case (less n)
  show ?case
  proof (cases "n < 10")
    case True
    note n = this
    show ?thesis
    proof (cases "m < 10")
      case True
      with n less.prems show ?thesis
        using digit_char_inj [of n m] by (simp add: str_nat.simps [of n] str_nat.simps [of m])
    next
      case False
      with n less.prems str_nat_nonempty [of "m div 10"] show ?thesis
        by (simp add: str_nat.simps [of n] str_nat.simps [of m])
    qed
  next
    case False
    note n = this
    show ?thesis
    proof (cases "m < 10")
      case True
      with n less.prems str_nat_nonempty [of "n div 10"] show ?thesis
        by (simp add: str_nat.simps [of n] str_nat.simps [of m])
    next
      case False
      with n less.prems have e: "str_nat (n div 10) = str_nat (m div 10)"
        and c: "char_of (48 + n mod 10) = char_of (48 + m mod 10)"
        by (simp_all add: str_nat.simps [of n] str_nat.simps [of m])
      from n have "n div 10 < n" by simp
      from less.IH [OF this e] have d: "n div 10 = m div 10" .
      from c have "n mod 10 = m mod 10"
        using digit_char_inj [of "n mod 10" "m mod 10"] by simp
      with d show ?thesis
        by (metis div_mult_mod_eq)
    qed
  qed
qed

lemma default_labels_distinct: "distinct (map (measurement_label []) [0..<n])"
proof -
  have "inj_on (measurement_label []) {0..<n}"
    by (rule inj_onI) (auto simp: measurement_label_def dest: str_nat_inj)
  then show ?thesis
    by (simp add: distinct_map)
qed



subsection \<open>The average lines and the average row\<close>




text \<open>
  The labels that the function makes up when none are given are pairwise distinct
  (\<open>default_labels_distinct\<close>). A rate that is \<^verbatim>\<open>nan\<close> passes \<^verbatim>\<open>float()\<close>, and
  \<^verbatim>\<open>mean()\<close> leaves it out: the line and the row are at the mean of the other rates.
  A measurement with a value that is no number is dropped as a whole. With the sum from
  left to right, the line and the row of one attribute can differ in the last bit,
  since the table is ordered by label: for the rates 0.1, 0.2 and 0.3 under the labels
  \<^verbatim>\<open>c\<close>, \<^verbatim>\<open>b\<close> and \<^verbatim>\<open>a\<close> the line is at \<^verbatim>\<open>0.20000000000000004\<close> and the row has
  \<^verbatim>\<open>0.19999999999999998\<close>.
\<close>

lemma nan_rate_left_out:
  "map extract_rates
     [[(''Severity Match Rate (%)'', VNum (Fin 80)), (''Occurrence Match Rate (%)'', VNum (Fin 70)),
       (''Priority Match Rate (%)'', VNum (Fin 60))],
      [(''Severity Match Rate (%)'', VNum NaN), (''Occurrence Match Rate (%)'', VNum (Fin 75)),
       (''Priority Match Rate (%)'', VStr ''nan'')]]
     = [Some (Fin 80, Fin 70, Fin 60), Some (NaN, Fin 75, NaN)] \<and>
   map_sum id average_lines
     (create_comparison_visualization seq_sum
        [[(''Severity Match Rate (%)'', VNum (Fin 80)), (''Occurrence Match Rate (%)'', VNum (Fin 70)),
          (''Priority Match Rate (%)'', VNum (Fin 60))],
         [(''Severity Match Rate (%)'', VNum NaN), (''Occurrence Match Rate (%)'', VNum (Fin 75)),
          (''Priority Match Rate (%)'', VStr ''nan'')]] [])
     = Inr [(''Severity'', Fin 80), (''Occurrence'', Fin (145 / 2)), (''Priority'', Fin 60)] \<and>
   map_sum id (map_sum id (\<lambda>pt. map_of (pt_rows pt) ''AVERAGE'') \<circ> pivot_df)
     (create_comparison_visualization seq_sum
        [[(''Severity Match Rate (%)'', VNum (Fin 80)), (''Occurrence Match Rate (%)'', VNum (Fin 70)),
          (''Priority Match Rate (%)'', VNum (Fin 60))],
         [(''Severity Match Rate (%)'', VNum NaN), (''Occurrence Match Rate (%)'', VNum (Fin 75)),
          (''Priority Match Rate (%)'', VStr ''nan'')]] [])
     = Inr (Inr (Some [Fin (145 / 2), Fin 60, Fin 80]))"
  by code_simp

lemma unconvertible_measurement_dropped:
  "map_sum id average_lines
     (create_comparison_visualization seq_sum
        [[(''Severity Match Rate (%)'', VNum (Fin 80)), (''Occurrence Match Rate (%)'', VNum (Fin 70)),
          (''Priority Match Rate (%)'', VNum (Fin 60))],
         [(''Severity Match Rate (%)'', VStr ''n/a''), (''Occurrence Match Rate (%)'', VNum (Fin 75)),
          (''Priority Match Rate (%)'', VNum (Fin 65))]] [])
   = Inr [(''Severity'', Fin 80), (''Occurrence'', Fin 70), (''Priority'', Fin 60)]"
  by code_simp

lemma line_and_row_may_differ:
  "map_sum id average_lines
     (create_comparison_visualization seq_sum
        [[(''Severity Match Rate (%)'', VStr ''0.1''), (''Occurrence Match Rate (%)'', VNum (Fin 0)),
          (''Priority Match Rate (%)'', VNum (Fin 0))],
         [(''Severity Match Rate (%)'', VStr ''0.2''), (''Occurrence Match Rate (%)'', VNum (Fin 0)),
          (''Priority Match Rate (%)'', VNum (Fin 0))],
         [(''Severity Match Rate (%)'', VStr ''0.3''), (''Occurrence Match Rate (%)'', VNum (Fin 0)),
          (''Priority Match Rate (%)'', VNum (Fin 0))]] [''c'', ''b'', ''a''])
   = Inr [(''Severity'', Fin (7205759403792795 / 36028797018963968)),
          (''Occurrence'', Fin 0), (''Priority'', Fin 0)] \<and>
   map_sum id (map_sum id (\<lambda>pt. map_of (pt_rows pt) ''AVERAGE'') \<circ> pivot_df)
     (create_comparison_visualization seq_sum
        [[(''Severity Match Rate (%)'', VStr ''0.1''), (''Occurrence Match Rate (%)'', VNum (Fin 0)),
          (''Priority Match Rate (%)'', VNum (Fin 0))],
         [(''Severity Match Rate (%)'', VStr ''0.2''), (''Occurrence Match Rate (%)'', VNum (Fin 0)),
          (''Priority Match Rate (%)'', VNum (Fin 0))],
         [(''Severity Match Rate (%)'', VStr ''0.3''), (''Occurrence Match Rate (%)'', VNum (Fin 0)),
          (''Priority Match Rate (%)'', VNum (Fin 0))]] [''c'', ''b'', ''a''])
   = Inr (Inr (Some [Fin 0, Fin 0, Fin (7205759403792793 / 36028797018963968)]))"
  by code_simp

end
